theory Spec2Isabelle
  imports Main "HOL-Library.Word"
begin

unbundle bit_operations_syntax

section \<open>C integer conventions\<close>

text \<open>
  The journal engine is C. Scalars that the engine keeps within bounds are modelled as
  \<open>int\<close>; where the source converts between signed and unsigned types or lets a
  counter run freely, the conversion is written out with the helpers below. On-disk
  fields are words of their declared width.
\<close>

type_synonym byte = "8 word"

definition u32 :: "int \<Rightarrow> int" where
  "u32 x = x mod 2 ^ 32"

definition u64 :: "int \<Rightarrow> int" where
  "u64 x = x mod 2 ^ 64"

definition s32 :: "int \<Rightarrow> int" where
  "s32 x = (x + 2 ^ 31) mod 2 ^ 32 - 2 ^ 31"

definition s64 :: "int \<Rightarrow> int" where
  "s64 x = (x + 2 ^ 63) mod 2 ^ 64 - 2 ^ 63"

text \<open>The remainder of C's \<open>%\<close>, which truncates towards zero.\<close>

definition crem :: "int \<Rightarrow> int \<Rightarrow> int" where
  "crem a b = sgn a * (\<bar>a\<bar> mod \<bar>b\<bar>)"

text \<open>Error numbers of the Linux kernel (\<open>errno-base.h\<close>, \<open>errno.h\<close>).\<close>

definition EIO :: int where "EIO = 5"
definition EAGAIN :: int where "EAGAIN = 11"
definition ENOMEM :: int where "ENOMEM = 12"
definition EFAULT :: int where "EFAULT = 14"
definition EBUSY :: int where "EBUSY = 16"
definition EINVAL :: int where "EINVAL = 22"
definition EFBIG :: int where "EFBIG = 27"

section \<open>On-device layout (include/shallfs/device.h)\<close>

definition SHALL_SB_MAGIC :: string where
  "SHALL_SB_MAGIC = ''SHALL 01''"

definition SHALL_DEV_BLOCK :: int where
  "SHALL_DEV_BLOCK = 4096"

record shall_devsuper =
  ds_magic1 :: string
  ds_device_size :: "64 word"
  ds_data_space :: "64 word"
  ds_data_start :: "64 word"
  ds_data_length :: "64 word"
  ds_max_length :: "64 word"
  ds_version :: "64 word"
  ds_flags :: "32 word"
  ds_alignment :: "32 word"
  ds_num_superblocks :: "32 word"
  ds_this_superblock :: "32 word"
  ds_new_size :: "64 word"
  ds_new_alignment :: "32 word"
  ds_new_superblocks :: "32 word"
  ds_magic2 :: string
  ds_checksum :: "32 word"

definition sizeof_devsuper :: int where
  "sizeof_devsuper = 1024"


definition SHALL_SB_VALID :: "32 word" where "SHALL_SB_VALID = 1"
definition SHALL_SB_DIRTY :: "32 word" where "SHALL_SB_DIRTY = 2"
definition SHALL_SB_UPDATE :: "32 word" where "SHALL_SB_UPDATE = 4"

record shall_devheader =
  dh_next_header :: "32 word"
  dh_operation :: "32 word"
  dh_req_sec :: "64 word"
  dh_req_nsec :: "32 word"
  dh_result :: "32 word"
  dh_flags :: "32 word"
  dh_checksum :: "32 word"

definition sizeof_devheader :: int where
  "sizeof_devheader = 32"

definition sizeof_devcreds :: int where
  "sizeof_devcreds = 48"

definition sizeof_devfileid :: int where
  "sizeof_devfileid = 4"

definition sizeof_devsize :: int where
  "sizeof_devsize = 8"

section \<open>The block device\<close>

text \<open>
  The device as the engine sees it through \<open>sb_bread\<close>: the physical size, the
  superblock structure held in the last 1024 bytes of a block, the bytes of a block,
  the blocks whose read fails, and the error a synchronous write of a block reports
  (0 for none).
\<close>

record shall_device =
  i_size :: int
  supers :: "nat \<Rightarrow> shall_devsuper"
  blocks :: "nat \<Rightarrow> nat \<Rightarrow> byte"
  rd_fail :: "nat \<Rightarrow> bool"
  sync_err :: "nat \<Rightarrow> int"

section \<open>In-memory state (shallfs/shallfs.h)\<close>

definition OVERFLOW_DROP :: "32 word" where "OVERFLOW_DROP = 0"
definition OVERFLOW_WAIT :: "32 word" where "OVERFLOW_WAIT = 1"
definition OVERFLOW_MASK :: "32 word" where "OVERFLOW_MASK = OVERFLOW_DROP OR OVERFLOW_WAIT"
definition TOO_BIG_LOG :: "32 word" where "TOO_BIG_LOG = 0"
definition TOO_BIG_ERROR :: "32 word" where "TOO_BIG_ERROR = 8"
definition TOO_BIG_MASK :: "32 word" where "TOO_BIG_MASK = TOO_BIG_LOG OR TOO_BIG_ERROR"

record shall_devptr =
  block :: int
  next_super :: int
  offset :: int
  n_super :: int

record shall_options =
  commit_seconds :: int
  commit_size :: int
  opt_flags :: "32 word"

record shall_sbinfo_ro =
  device_size :: int
  data_space :: int
  num_superblocks :: int
  log_alignment :: int
  sb_flags :: "32 word"
  maxptr :: shall_devptr
  allow_commit_thread :: int
  inside_commit :: int
  some_data :: int

record shall_sbinfo_rw_read =
  data_start :: int
  data_length :: int
  committed :: int
  startptr :: shall_devptr
  commitptr :: shall_devptr
  buffer_written :: int
  buffer_read :: int

record shall_sbinfo_rw_other =
  last_commit :: int
  last_sb_written :: int
  max_length :: int
  version :: int
  logged :: int
  commit_count :: "int list"
  commit_buffer :: "nat \<Rightarrow> byte"

record shall_logqueue =
  extra_space :: int
  num_dropped :: int

record shall_fsinfo =
  options :: shall_options
  ro :: shall_sbinfo_ro
  rd :: shall_sbinfo_rw_read
  other :: shall_sbinfo_rw_other
  lq :: shall_logqueue
  dev :: shall_device

definition IS_DROP :: "shall_fsinfo \<Rightarrow> bool" where
  "IS_DROP fi \<longleftrightarrow> opt_flags (options fi) AND OVERFLOW_MASK = OVERFLOW_DROP"

definition IS_ERROR :: "shall_fsinfo \<Rightarrow> bool" where
  "IS_ERROR fi \<longleftrightarrow> opt_flags (options fi) AND TOO_BIG_MASK \<noteq> TOO_BIG_LOG"

section \<open>Superblocks (shallfs/device.h, shallfs/device.c)\<close>

text \<open>
  \<open>shall_superblock_location\<close> of the kernel: the block holding superblock \<open>n\<close>,
  computed in \<open>sector_t\<close> (unsigned, 64 bits).
\<close>

definition shall_superblock_location :: "int \<Rightarrow> int" where
  "shall_superblock_location n = u64 (u64 n * 4 * (4 * u64 n + 1))"

text \<open>
  \<open>checksum_super\<close>: the CRC of the structure up to the checksum field, which it
  therefore does not depend on.
\<close>

definition checksum_super :: "(shall_devsuper \<Rightarrow> 32 word) \<Rightarrow> shall_devsuper \<Rightarrow> 32 word" where
  "checksum_super csum ds = csum (ds\<lparr>ds_checksum := 0\<rparr>)"

text \<open>
  The checks of \<open>shall_read_superblock\<close> on the structure read, in the order of the
  source. Each field is stored into the state just before the checks that read it, so
  a check sees the decoded on-disk value. The result is \<open>None\<close> when every check
  passes, and otherwise the reason given to \<open>give_up\<close> with the number of fields
  stored by then. The checksum function over the structure is a parameter
  (\<open>crc32_le\<close> is the kernel's).
\<close>

definition sb_check ::
  "(shall_devsuper \<Rightarrow> 32 word) \<Rightarrow> shall_devsuper \<Rightarrow> int \<Rightarrow> int \<Rightarrow> (string \<times> nat) option" where
  "sb_check csum ds phys n =
    (if checksum_super csum ds \<noteq> ds_checksum ds then Some (''Wrong checksum'', 0)
     else if uint (ds_this_superblock ds) \<noteq> u32 n
       then Some (''Inconsistent superblock numeber'', 0)
     else if ds_magic1 ds \<noteq> SHALL_SB_MAGIC then Some (''wrong magic #1'', 0)
     else if ds_magic2 ds \<noteq> SHALL_SB_MAGIC then Some (''wrong magic #2'', 0)
     else if ds_flags ds AND SHALL_SB_VALID = 0 then Some (''no SHALL_SB_VALID in flags'', 1)
     else if sint (ds_device_size ds) > phys
       then Some (''device_size > physical size of device'', 2)
     else if crem (sint (ds_device_size ds)) SHALL_DEV_BLOCK \<noteq> 0
       then Some (''device_size not a multiple of SHALL_DEV_BLOCK'', 2)
     else if sint (ds_device_size ds) < 65536 then Some (''device_size < 65536'', 2)
     else if sint (ds_num_superblocks ds) \<le> 8 then Some (''num_superblocks <= 8'', 3)
     else if s64 (sint (ds_data_space ds)
                  + s32 (SHALL_DEV_BLOCK * sint (ds_num_superblocks ds)))
               \<noteq> sint (ds_device_size ds)
       then Some (''data_space * SHALL_DEV_BLOCK * num_superblocks != device_size'', 4)
     else if sint (ds_data_start ds) < 0 then Some (''data_start < 0'', 5)
     else if sint (ds_data_start ds) \<ge> sint (ds_data_space ds)
       then Some (''data_start >= data_space'', 5)
     else if sint (ds_data_length ds) < 0 then Some (''data_length < 0'', 6)
     else if sint (ds_data_length ds) > sint (ds_data_space ds)
       then Some (''data_length > data_space'', 6)
     else if sint (ds_max_length ds) < sint (ds_data_length ds)
       then Some (''max_length < data_length'', 7)
     else if sint (ds_max_length ds) > sint (ds_data_space ds)
       then Some (''max_length > data_space'', 7)
     else if crem (sint (ds_alignment ds)) 8 \<noteq> 0
       then Some (''alignment not a multiple of 8'', 8)
     else if sint (ds_alignment ds) < 8 then Some (''alignment < 8'', 8)
     else if u64 (SHALL_DEV_BLOCK
                   * shall_superblock_location (sint (ds_num_superblocks ds) - 1)
                  + sizeof_devsuper) \<ge> u64 (sint (ds_device_size ds))
       then Some (''location of last superblock past end of device'', 8)
     else None)"

text \<open>
  The first \<open>k\<close> stores of \<open>shall_read_superblock\<close> into the state, in the order of
  the source: \<open>flags\<close>, \<open>device_size\<close>, \<open>num_superblocks\<close>, \<open>data_space\<close>,
  \<open>data_start\<close>, \<open>data_length\<close>, \<open>max_length\<close>, \<open>log_alignment\<close> and, once all
  checks have passed, \<open>version\<close>.
\<close>

definition sb_assign :: "nat \<Rightarrow> shall_devsuper \<Rightarrow> shall_fsinfo \<Rightarrow> shall_fsinfo" where
  "sb_assign k ds fi =
     fi\<lparr>ro := (ro fi)
            \<lparr>sb_flags := (if 1 \<le> k then ds_flags ds else sb_flags (ro fi)),
             device_size := (if 2 \<le> k then sint (ds_device_size ds) else device_size (ro fi)),
             num_superblocks :=
               (if 3 \<le> k then sint (ds_num_superblocks ds) else num_superblocks (ro fi)),
             data_space := (if 4 \<le> k then sint (ds_data_space ds) else data_space (ro fi)),
             log_alignment :=
               (if 8 \<le> k then sint (ds_alignment ds) else log_alignment (ro fi))\<rparr>,
        rd := (rd fi)
            \<lparr>data_start := (if 5 \<le> k then sint (ds_data_start ds) else data_start (rd fi)),
             data_length :=
               (if 6 \<le> k then sint (ds_data_length ds) else data_length (rd fi))\<rparr>,
        other := (other fi)
            \<lparr>max_length := (if 7 \<le> k then sint (ds_max_length ds) else max_length (other fi)),
             version := (if 9 \<le> k then sint (ds_version ds) else version (other fi))\<rparr>\<rparr>"

text \<open>
  \<open>shall_read_superblock\<close>: the result is the return value, the reason recorded by
  \<open>give_up\<close> (empty when there is none) and the state, which keeps the fields stored
  before a failing check.
\<close>

definition shall_read_superblock ::
  "(shall_devsuper \<Rightarrow> 32 word) \<Rightarrow> shall_fsinfo \<Rightarrow> int \<Rightarrow> int \<times> string \<times> shall_fsinfo" where
  "shall_read_superblock csum fi n =
    (let b = nat (shall_superblock_location n) in
     if rd_fail (dev fi) b then (- EIO, [], fi)
     else
      case sb_check csum (supers (dev fi) b) (i_size (dev fi)) n of
        Some (reason, k) \<Rightarrow> (- EINVAL, reason, sb_assign k (supers (dev fi) b) fi)
      | None \<Rightarrow> (0, [], sb_assign 9 (supers (dev fi) b) fi))"

section \<open>Superblock check of the tools (tools/shallfs-common.c)\<close>







section \<open>Ring addressing (shallfs/device.c)\<close>

text \<open>The quotient of C's \<open>/\<close>, which truncates towards zero.\<close>

definition cdiv :: "int \<Rightarrow> int \<Rightarrow> int" where
  "cdiv a b = sgn a * sgn b * (\<bar>a\<bar> div \<bar>b\<bar>)"

text \<open>
  The loop of \<open>shall_calculate_block\<close> over \<open>remain\<close>, \<open>prev\<close>, \<open>result\<close> and
  \<open>nsb\<close>; the three \<open>sector_t\<close> variables are unsigned.
\<close>

function shall_calculate_loop :: "int \<Rightarrow> int \<Rightarrow> int \<Rightarrow> int \<Rightarrow> int \<Rightarrow> int \<times> int \<times> int" where
  "shall_calculate_loop ns remain prev result nsb =
     (if nsb < ns \<and> remain > 0 then
        (let this = shall_superblock_location nsb;
             diff = u64 (this - prev - 1)
         in if remain < diff then (remain, result, nsb)
            else shall_calculate_loop ns (u64 (remain - diff)) this
                   (u64 (result + diff + 1)) (nsb + 1))
      else (remain, result, nsb))"
  by pat_completeness auto
termination
  by (relation "measure (\<lambda>(ns, remain, prev, result, nsb). nat (ns - nsb))") auto

declare shall_calculate_loop.simps [simp del]

definition shall_calculate_block :: "int \<Rightarrow> int \<Rightarrow> shall_devptr" where
  "shall_calculate_block p ns =
    (case shall_calculate_loop ns (u64 (cdiv p SHALL_DEV_BLOCK)) 0 1 1 of
       (remain, result, nsb) \<Rightarrow>
         \<lparr>block = u64 (result + remain),
          next_super = (if nsb < ns then shall_superblock_location nsb else 0),
          offset = crem p SHALL_DEV_BLOCK,
          n_super = nsb\<rparr>)"

definition inc_block :: "shall_devptr \<Rightarrow> shall_devptr \<Rightarrow> shall_devptr" where
  "inc_block b maxp =
    (let b = b\<lparr>block := u64 (block b + 1)\<rparr>;
         b = (if block b \<ge> block maxp then b\<lparr>block := 1, n_super := 1\<rparr> else b);
         b = (if n_super b < n_super maxp \<and> block b = next_super b then
                (let b = b\<lparr>block := u64 (block b + 1), n_super := s32 (n_super b + 1)\<rparr>
                 in if block b \<ge> block maxp then b\<lparr>block := 1, n_super := 1\<rparr> else b)
              else b)
     in if n_super b < n_super maxp
        then b\<lparr>next_super := shall_superblock_location (n_super b)\<rparr>
        else b\<lparr>next_super := 0\<rparr>)"

section \<open>Reading the journal (shallfs/device.c, \<open>read_code\<close>)\<close>

text \<open>
  The three instances of the \<open>read_code\<close> macro differ in the copy: \<open>memcpy\<close> to a
  kernel buffer, \<open>copy_to_user\<close> (which succeeds or faults) and \<open>nullcpy\<close>.
\<close>

datatype copy_kind = copy_kernel | copy_user bool | copy_null

fun copy_fails :: "copy_kind \<Rightarrow> bool" where
  "copy_fails (copy_user ok) = (\<not> ok)"
| "copy_fails _ = False"

fun copied :: "copy_kind \<Rightarrow> byte list \<Rightarrow> byte list" where
  "copied copy_null bs = []"
| "copied _ bs = bs"

definition mem_read :: "(nat \<Rightarrow> byte) \<Rightarrow> int \<Rightarrow> int \<Rightarrow> byte list" where
  "mem_read m a n = map (\<lambda>i. m (nat (a + int i))) [0..<nat n]"

definition mem_write :: "(nat \<Rightarrow> byte) \<Rightarrow> int \<Rightarrow> byte list \<Rightarrow> (nat \<Rightarrow> byte)" where
  "mem_write m a bs =
     (\<lambda>i. if nat a \<le> i \<and> i < nat a + length bs then bs ! (i - nat a) else m i)"

text \<open>
  The engine keeps the offset of a device pointer within a block. The loops below are
  modelled on that range only: outside it the model gives \<open>None\<close>, as it does when the
  kernel stops in \<open>BUG()\<close>.
\<close>

definition offset_ok :: "int \<Rightarrow> bool" where
  "offset_ok off \<longleftrightarrow> 0 \<le> off \<and> off < SHALL_DEV_BLOCK"

text \<open>
  The loop over committed data. The result is the error returned from inside the loop
  (if any), the state, the local \<open>offset\<close>, the remaining \<open>len\<close> and the bytes
  copied so far. \<open>read_todo\<close> is the \<open>todo\<close> of one iteration.
\<close>

definition read_todo :: "shall_fsinfo \<Rightarrow> int \<Rightarrow> int \<Rightarrow> int" where
  "read_todo fi off len =
    (let todo = len;
         todo = (if todo > committed (rd fi) then committed (rd fi) else todo)
     in if todo + off > SHALL_DEV_BLOCK then SHALL_DEV_BLOCK - off else todo)"

text \<open>\<open>data_start += n\<close>, wrapped once at \<open>data_space\<close>.\<close>

definition advance_data_start :: "shall_fsinfo \<Rightarrow> int \<Rightarrow> shall_fsinfo" where
  "advance_data_start fi n =
    (let fi = fi\<lparr>rd := (rd fi)\<lparr>data_start := data_start (rd fi) + n\<rparr>\<rparr>
     in if data_start (rd fi) \<ge> data_space (ro fi)
        then fi\<lparr>rd := (rd fi)\<lparr>data_start := data_start (rd fi) - data_space (ro fi)\<rparr>\<rparr>
        else fi)"

text \<open>
  The end of one iteration: \<open>data_start\<close>, \<open>committed\<close> and the local \<open>offset\<close>
  move by \<open>todo\<close>, and the start pointer moves to the next block when the offset
  leaves the block.
\<close>

definition read_step :: "shall_fsinfo \<Rightarrow> int \<Rightarrow> int \<Rightarrow> shall_fsinfo \<times> int" where
  "read_step fi off todo =
    (let fi = advance_data_start fi todo;
         fi = fi\<lparr>rd := (rd fi)\<lparr>committed := committed (rd fi) - todo\<rparr>\<rparr>;
         off' = off + todo
     in if off' \<ge> SHALL_DEV_BLOCK
        then (fi\<lparr>rd := (rd fi)\<lparr>startptr := inc_block (startptr (rd fi)) (maxptr (ro fi))\<rparr>\<rparr>,
              off' - SHALL_DEV_BLOCK)
        else (fi, off'))"

function read_committed ::
  "copy_kind \<Rightarrow> shall_fsinfo \<Rightarrow> int \<Rightarrow> int \<Rightarrow> byte list
     \<Rightarrow> (int option \<times> shall_fsinfo \<times> int \<times> int \<times> byte list) option" where
  "read_committed cp fi off len dest =
    (if len > 0 \<and> committed (rd fi) > 0 then
       (if \<not> offset_ok off then None
        else if rd_fail (dev fi) (nat (block (startptr (rd fi))))
          then Some (Some (- EIO), fi, off, len, dest)
        else if copy_fails cp then Some (Some (- EFAULT), fi, off, len, dest)
        else read_committed cp
               (fst (read_step fi off (read_todo fi off len)))
               (snd (read_step fi off (read_todo fi off len)))
               (len - read_todo fi off len)
               (dest @ copied cp
                  (mem_read (blocks (dev fi) (nat (block (startptr (rd fi))))) off
                     (read_todo fi off len))))
     else Some (None, fi, off, len, dest))"
  by pat_completeness auto
termination
  by (relation "measure (\<lambda>(cp, fi, off, len, dest). nat len)")
     (auto simp: offset_ok_def read_todo_def SHALL_DEV_BLOCK_def Let_def split: if_splits)

declare read_committed.simps [simp del]

text \<open>\<open>while (ptr.offset >= SHALL_DEV_BLOCK) { ptr.offset -= SHALL_DEV_BLOCK; inc_block(...) }\<close>\<close>

function advance_blocks :: "shall_devptr \<Rightarrow> shall_devptr \<Rightarrow> shall_devptr" where
  "advance_blocks b maxp =
     (if offset b \<ge> SHALL_DEV_BLOCK
      then advance_blocks (inc_block (b\<lparr>offset := offset b - SHALL_DEV_BLOCK\<rparr>) maxp) maxp
      else b)"
  by pat_completeness auto
termination
  by (relation "measure (\<lambda>(b, maxp). nat (offset b))")
     (auto simp: inc_block_def Let_def SHALL_DEV_BLOCK_def)

declare advance_blocks.simps [simp del]

text \<open>The part of \<open>read_code\<close> that takes \<open>len\<close> bytes from the commit buffer.\<close>

definition read_buffered :: "shall_fsinfo \<Rightarrow> int \<Rightarrow> shall_fsinfo" where
  "read_buffered fi len =
    (let fi = fi\<lparr>rd := (rd fi)\<lparr>buffer_read := buffer_read (rd fi) + len\<rparr>\<rparr>;
         fi = advance_data_start fi len;
         fi = fi\<lparr>rd := (rd fi)\<lparr>startptr :=
                advance_blocks ((startptr (rd fi))\<lparr>offset := offset (startptr (rd fi)) + len\<rparr>)
                  (maxptr (ro fi))\<rparr>\<rparr>;
         fi = fi\<lparr>rd := (rd fi)\<lparr>commitptr :=
                advance_blocks ((commitptr (rd fi))\<lparr>offset := offset (commitptr (rd fi)) + len\<rparr>)
                  (maxptr (ro fi))\<rparr>\<rparr>
     in if buffer_read (rd fi) \<ge> buffer_written (rd fi)
        then fi\<lparr>rd := (rd fi)\<lparr>buffer_read := 0, buffer_written := 0\<rparr>\<rparr>
        else fi)"

text \<open>
  The part of \<open>read_code\<close> that reads committed data, when there is any. The result is
  the error returned from inside the loop (if any), the state with the start pointer's
  offset stored back, the remaining \<open>len\<close> and the bytes copied.
\<close>

definition read_device ::
  "copy_kind \<Rightarrow> shall_fsinfo \<Rightarrow> int \<Rightarrow> (int option \<times> shall_fsinfo \<times> int \<times> byte list) option" where
  "read_device cp fi len =
    (if committed (rd fi) > 0
     then (case read_committed cp fi (offset (startptr (rd fi))) len [] of
             None \<Rightarrow> None
           | Some (Some e, fi, off, len, dest) \<Rightarrow> Some (Some e, fi, len, dest)
           | Some (None, fi, off, len, dest) \<Rightarrow>
               Some (None,
                     fi\<lparr>rd := (rd fi)\<lparr>startptr := (startptr (rd fi))\<lparr>offset := off\<rparr>\<rparr>\<rparr>,
                     len, dest))
     else Some (None, fi, len, []))"

definition read_code :: "copy_kind \<Rightarrow> shall_fsinfo \<Rightarrow> int \<Rightarrow> (int \<times> byte list \<times> shall_fsinfo) option" where
  "read_code cp fi len =
    (if len < 1 then Some (0, [], fi)
     else if len > u64 (data_length (rd fi)) then Some (0, [], fi)
     else
      let orig = len;
          fi = fi\<lparr>rd := (rd fi)\<lparr>data_length := data_length (rd fi) - len\<rparr>\<rparr>
      in case read_device cp fi len of
           None \<Rightarrow> None
         | Some (Some e, fi, len, dest) \<Rightarrow> Some (e, dest, fi)
         | Some (None, fi, len, dest) \<Rightarrow>
            if len \<le> 0 then Some (orig, dest, fi)
            else if copy_fails cp then Some (- EFAULT, dest, fi)
            else Some (orig,
                       dest @ copied cp
                         (mem_read (commit_buffer (other fi)) (buffer_read (rd fi)) len),
                       read_buffered fi len))"

definition shall_read_data_kernel :: "shall_fsinfo \<Rightarrow> int \<Rightarrow> (int \<times> byte list \<times> shall_fsinfo) option" where
  "shall_read_data_kernel fi len = read_code copy_kernel fi len"

definition shall_read_data_user :: "bool \<Rightarrow> shall_fsinfo \<Rightarrow> int \<Rightarrow> (int \<times> byte list \<times> shall_fsinfo) option" where
  "shall_read_data_user uok fi len = read_code (copy_user uok) fi len"

definition shall_mark_read :: "shall_fsinfo \<Rightarrow> int \<Rightarrow> (int \<times> byte list \<times> shall_fsinfo) option" where
  "shall_mark_read fi len =
     (let len = (if len > u64 (data_length (rd fi)) then u64 (data_length (rd fi)) else len)
      in read_code copy_null fi len)"

section \<open>Writing superblocks and committing (shallfs/device.c)\<close>

text \<open>
  \<open>shall_write_superblock\<close>: the structure built from the state is copied into the
  block's buffer, which is then written; a failed \<open>sb_bread\<close> leaves the device as it
  was, a failed synchronous write is reported after the copy.
\<close>

definition mk_devsuper :: "(shall_devsuper \<Rightarrow> 32 word) \<Rightarrow> shall_fsinfo \<Rightarrow> int \<Rightarrow> shall_devsuper" where
  "mk_devsuper csum fi n =
    (let ds = \<lparr>ds_magic1 = SHALL_SB_MAGIC,
               ds_device_size = word_of_int (device_size (ro fi)),
               ds_data_space = word_of_int (data_space (ro fi)),
               ds_data_start = word_of_int (data_start (rd fi)),
               ds_data_length = word_of_int (data_length (rd fi)),
               ds_max_length = word_of_int (max_length (other fi)),
               ds_version = word_of_int (version (other fi)),
               ds_flags = sb_flags (ro fi),
               ds_alignment = word_of_int (log_alignment (ro fi)),
               ds_num_superblocks = word_of_int (num_superblocks (ro fi)),
               ds_this_superblock = word_of_int n,
               ds_new_size = 0, ds_new_alignment = 0, ds_new_superblocks = 0,
               ds_magic2 = SHALL_SB_MAGIC,
               ds_checksum = 0\<rparr>
     in ds\<lparr>ds_checksum := checksum_super csum ds\<rparr>)"

definition shall_write_superblock ::
  "(shall_devsuper \<Rightarrow> 32 word) \<Rightarrow> shall_fsinfo \<Rightarrow> int \<Rightarrow> bool \<Rightarrow> int \<times> shall_fsinfo" where
  "shall_write_superblock csum fi n sync =
    (let b = nat (shall_superblock_location n) in
     if rd_fail (dev fi) b then (- EIO, fi)
     else
      let fi' = fi\<lparr>dev := (dev fi)\<lparr>supers := (supers (dev fi))(b := mk_devsuper csum fi n)\<rparr>\<rparr>
      in if sync \<and> sync_err (dev fi) b \<noteq> 0 then (sync_err (dev fi) b, fi') else (0, fi'))"

text \<open>
  The loop of \<open>shall_write_data\<close>; \<open>dn\<close> is the local \<open>done\<close> and \<open>now\<close> the
  second count of \<open>current_kernel_time\<close>. The mutex is not modelled: the steps are
  those of one caller running alone. \<open>write_done\<close> is the branch taken when
  everything is committed.
\<close>

definition write_done ::
  "(shall_devsuper \<Rightarrow> 32 word) \<Rightarrow> int \<Rightarrow> bool \<Rightarrow> shall_fsinfo \<Rightarrow> bool \<Rightarrow> int \<times> shall_fsinfo" where
  "write_done csum now sync fi dn =
    (let fi = fi\<lparr>other := (other fi)\<lparr>last_commit := now\<rparr>\<rparr>;
         fi = fi\<lparr>rd := (rd fi)\<lparr>buffer_read := 0, buffer_written := 0\<rparr>\<rparr>
     in if dn then
          (let n_sb = s32 (last_sb_written (other fi) + 1);
               fi = fi\<lparr>other := (other fi)\<lparr>last_sb_written := n_sb\<rparr>\<rparr>;
               fi = fi\<lparr>other := (other fi)\<lparr>version := s64 (version (other fi) + 1)\<rparr>\<rparr>
           in if n_sb \<ge> num_superblocks (ro fi)
              then shall_write_superblock csum
                     (fi\<lparr>other := (other fi)\<lparr>last_sb_written := 1\<rparr>\<rparr>) 1 sync
              else shall_write_superblock csum fi n_sb sync)
        else (0, fi))"

definition write_todo :: "shall_fsinfo \<Rightarrow> int" where
  "write_todo fi =
    (let todo = SHALL_DEV_BLOCK - offset (commitptr (rd fi));
         csize = data_length (rd fi) - committed (rd fi)
     in if todo > csize then csize else todo)"

text \<open>What the loop records under the mutex before the block is written.\<close>

definition write_intent :: "shall_fsinfo \<Rightarrow> shall_fsinfo" where
  "write_intent fi =
    (let todo = write_todo fi;
         fi = fi\<lparr>rd := (rd fi)\<lparr>buffer_read := buffer_read (rd fi) + todo\<rparr>\<rparr>;
         fi = fi\<lparr>rd := (rd fi)\<lparr>commitptr :=
                (commitptr (rd fi))\<lparr>offset := offset (commitptr (rd fi)) + todo\<rparr>\<rparr>\<rparr>;
         fi = fi\<lparr>rd := (rd fi)\<lparr>committed := committed (rd fi) + todo\<rparr>\<rparr>
     in if offset (commitptr (rd fi)) \<ge> SHALL_DEV_BLOCK
        then fi\<lparr>rd := (rd fi)\<lparr>commitptr :=
               inc_block ((commitptr (rd fi))\<lparr>offset := offset (commitptr (rd fi)) - SHALL_DEV_BLOCK\<rparr>)
                 (maxptr (ro fi))\<rparr>\<rparr>
        else fi)"

text \<open>
  The \<open>memcpy\<close> into the block: \<open>old\<close> is the state before the intent was recorded,
  from which \<open>block\<close>, \<open>offset\<close>, \<open>ptr\<close> and \<open>todo\<close> were taken.
\<close>

definition write_block :: "shall_fsinfo \<Rightarrow> shall_fsinfo \<Rightarrow> shall_fsinfo" where
  "write_block old fi =
     fi\<lparr>dev := (dev fi)\<lparr>blocks := (blocks (dev fi))
       (nat (block (commitptr (rd old))) :=
          mem_write (blocks (dev fi) (nat (block (commitptr (rd old)))))
            (offset (commitptr (rd old)))
            (mem_read (commit_buffer (other old)) (buffer_read (rd old)) (write_todo old)))\<rparr>\<rparr>"

function write_data_loop ::
  "(shall_devsuper \<Rightarrow> 32 word) \<Rightarrow> int \<Rightarrow> bool \<Rightarrow> shall_fsinfo \<Rightarrow> bool
     \<Rightarrow> (int \<times> shall_fsinfo) option" where
  "write_data_loop csum now sync fi dn =
    (if committed (rd fi) \<ge> data_length (rd fi) then Some (write_done csum now sync fi dn)
     else if \<not> offset_ok (offset (commitptr (rd fi))) then None
     else
      let blk = nat (block (commitptr (rd fi)));
          fi' = write_intent fi
      in if rd_fail (dev fi') blk then Some (- EIO, fi')
         else
          let fi'' = write_block fi fi'
          in if sync \<and> sync_err (dev fi'') blk \<noteq> 0 then Some (sync_err (dev fi'') blk, fi'')
             else write_data_loop csum now sync fi'' True)"
  by pat_completeness auto
termination
  by (relation "measure (\<lambda>(csum, now, sync, fi, dn). nat (data_length (rd fi) - committed (rd fi)))")
     (auto simp: offset_ok_def write_intent_def write_block_def write_todo_def
        SHALL_DEV_BLOCK_def Let_def split: if_splits)

declare write_data_loop.simps [simp del]

definition shall_write_data ::
  "(shall_devsuper \<Rightarrow> 32 word) \<Rightarrow> int \<Rightarrow> shall_fsinfo \<Rightarrow> int \<Rightarrow> bool \<Rightarrow> (int \<times> shall_fsinfo) option" where
  "shall_write_data csum now fi why sync =
     (if why < 0 \<or> why > 2 then Some (- EINVAL, fi)
      else write_data_loop csum now sync fi False)"

text \<open>The index of the superblock that a flush writes when it has written a block.\<close>

definition rotated_sb :: "shall_fsinfo \<Rightarrow> int" where
  "rotated_sb fi =
     (if s32 (last_sb_written (other fi) + 1) \<ge> num_superblocks (ro fi) then 1
      else s32 (last_sb_written (other fi) + 1))"

section \<open>Log records (unnamed/part_006, the kernel's log.c)\<close>

definition SHALL_OVERFLOW :: int where "SHALL_OVERFLOW = 4"
definition SHALL_RECOVER :: int where "SHALL_RECOVER = 5"
definition SHALL_TOO_BIG :: int where "SHALL_TOO_BIG = 6"
definition SHALL_MOUNT :: int where "SHALL_MOUNT = 1"

definition SHALL_LOG_NODATA :: "32 word" where "SHALL_LOG_NODATA = 0"
definition SHALL_LOG_FILE1 :: "32 word" where "SHALL_LOG_FILE1 = 0x0001"
definition SHALL_LOG_FILE2 :: "32 word" where "SHALL_LOG_FILE2 = 0x0002"
definition SHALL_LOG_CREDS :: "32 word" where "SHALL_LOG_CREDS = 0x0004"
definition SHALL_LOG_SIZE :: "32 word" where "SHALL_LOG_SIZE = 0x1000"
definition SHALL_LOG_DMASK :: "32 word" where "SHALL_LOG_DMASK = 0xff00"

text \<open>Little-endian images of the on-disk integers.\<close>

definition le32 :: "32 word \<Rightarrow> byte list" where
  "le32 w = [ucast w, ucast (drop_bit 8 w), ucast (drop_bit 16 w), ucast (drop_bit 24 w)]"

definition le64 :: "64 word \<Rightarrow> byte list" where
  "le64 w = [ucast w, ucast (drop_bit 8 w), ucast (drop_bit 16 w), ucast (drop_bit 24 w),
             ucast (drop_bit 32 w), ucast (drop_bit 40 w), ucast (drop_bit 48 w),
             ucast (drop_bit 56 w)]"

definition le32_to_cpu :: "byte list \<Rightarrow> 32 word" where
  "le32_to_cpu bs = word_of_int (horner_sum uint 256 (take 4 bs))"

definition le64_to_cpu :: "byte list \<Rightarrow> 64 word" where
  "le64_to_cpu bs = word_of_int (horner_sum uint 256 (take 8 bs))"

definition devheader_bytes :: "shall_devheader \<Rightarrow> byte list" where
  "devheader_bytes h =
     le32 (dh_next_header h) @ le32 (dh_operation h) @ le64 (dh_req_sec h)
     @ le32 (dh_req_nsec h) @ le32 (dh_result h) @ le32 (dh_flags h) @ le32 (dh_checksum h)"

definition devheader_of_bytes :: "byte list \<Rightarrow> shall_devheader" where
  "devheader_of_bytes bs =
     \<lparr>dh_next_header = le32_to_cpu bs,
      dh_operation = le32_to_cpu (drop 4 bs),
      dh_req_sec = le64_to_cpu (drop 8 bs),
      dh_req_nsec = le32_to_cpu (drop 16 bs),
      dh_result = le32_to_cpu (drop 20 bs),
      dh_flags = le32_to_cpu (drop 24 bs),
      dh_checksum = le32_to_cpu (drop 28 bs)\<rparr>"

text \<open>
  \<open>checksum_header\<close>: the CRC of the 28 bytes before the checksum field. The CRC
  itself (\<open>crc32_le\<close> with the seed of the source) is the parameter \<open>crc\<close>.
\<close>

definition shall_devheader_checksize :: nat where
  "shall_devheader_checksize = 28"

definition checksum_header :: "(byte list \<Rightarrow> 32 word) \<Rightarrow> byte list \<Rightarrow> 32 word" where
  "checksum_header crc bs = crc (take shall_devheader_checksize bs)"

record shall_devcreds =
  dc_uid :: "64 word"
  dc_euid :: "64 word"
  dc_fsuid :: "64 word"
  dc_gid :: "64 word"
  dc_egid :: "64 word"
  dc_fsgid :: "64 word"

definition devcreds_bytes :: "shall_devcreds \<Rightarrow> byte list" where
  "devcreds_bytes c =
     le64 (dc_uid c) @ le64 (dc_euid c) @ le64 (dc_fsuid c)
     @ le64 (dc_gid c) @ le64 (dc_egid c) @ le64 (dc_fsgid c)"

record timespec =
  tv_sec :: int
  tv_nsec :: int

text \<open>
  \<open>add_blob\<close>: \<open>None\<close> is \<open>BUG()\<close>. The length of the blob is that of the list.
\<close>

definition add_blob :: "shall_fsinfo \<Rightarrow> byte list \<Rightarrow> shall_fsinfo option" where
  "add_blob fi data =
    (let len = int (length data) in
     if len > 0 then
       (if buffer_written (rd fi) + len > commit_size (options fi) then None
        else Some (fi\<lparr>other := (other fi)\<lparr>commit_buffer :=
                        mem_write (commit_buffer (other fi)) (buffer_written (rd fi)) data\<rparr>,
                      rd := (rd fi)\<lparr>buffer_written := buffer_written (rd fi) + len,
                                     data_length := data_length (rd fi) + len\<rparr>\<rparr>))
     else Some fi)"

definition sizeof_pad_zero :: int where
  "sizeof_pad_zero = 64"

function add_padding :: "shall_fsinfo \<Rightarrow> int \<Rightarrow> shall_fsinfo option" where
  "add_padding fi len =
    (if len > 0 then
       (let td = (if len > sizeof_pad_zero then sizeof_pad_zero else len) in
        case add_blob fi (replicate (nat td) 0) of
          None \<Rightarrow> None
        | Some fi' \<Rightarrow> add_padding fi' (len - td))
     else Some fi)"
  by pat_completeness auto
termination
  by (relation "measure (\<lambda>(fi, len). nat len)") (auto simp: sizeof_pad_zero_def)

declare add_padding.simps [simp del]

text \<open>\<open>logsize\<close> is the kernel's \<open>roundup\<close> to the log alignment.\<close>

definition logsize :: "shall_fsinfo \<Rightarrow> int \<Rightarrow> int" where
  "logsize fi l =
     ((l + (log_alignment (ro fi) - 1)) div log_alignment (ro fi)) * log_alignment (ro fi)"

text \<open>
  The calls of \<open>shall_write_data\<close> from the log code pass \<open>locked = 1\<close>, \<open>why = 1\<close>
  and \<open>sync = 0\<close> and ignore the result. The clock is read once per call of the
  functions below.
\<close>

definition commit_now ::
  "(shall_devsuper \<Rightarrow> 32 word) \<Rightarrow> timespec \<Rightarrow> shall_fsinfo \<Rightarrow> shall_fsinfo option" where
  "commit_now csum now fi = map_option snd (shall_write_data csum (tv_sec now) fi 1 False)"

definition need_commit ::
  "(shall_devsuper \<Rightarrow> 32 word) \<Rightarrow> timespec \<Rightarrow> shall_fsinfo \<Rightarrow> int \<Rightarrow> shall_fsinfo option" where
  "need_commit csum now fi len =
     (if len + buffer_written (rd fi) > commit_size (options fi)
      then commit_now csum now fi else Some fi)"

definition mk_header ::
  "(byte list \<Rightarrow> 32 word) \<Rightarrow> int \<Rightarrow> int \<Rightarrow> timespec \<Rightarrow> int \<Rightarrow> 32 word \<Rightarrow> shall_devheader" where
  "mk_header crc next_header operation t result flags =
    (let h = \<lparr>dh_next_header = word_of_int next_header,
              dh_operation = word_of_int operation,
              dh_req_sec = word_of_int (tv_sec t),
              dh_req_nsec = word_of_int (tv_nsec t),
              dh_result = word_of_int result,
              dh_flags = flags,
              dh_checksum = 0\<rparr>
     in h\<lparr>dh_checksum := checksum_header crc (devheader_bytes h)\<rparr>)"

text \<open>The tail shared by the marker writers: flush a full buffer, count, publish.\<close>

definition logged_one :: "(shall_devsuper \<Rightarrow> 32 word) \<Rightarrow> timespec \<Rightarrow> shall_fsinfo \<Rightarrow> shall_fsinfo option" where
  "logged_one csum now fi =
    (case (if buffer_written (rd fi) \<ge> commit_size (options fi)
           then commit_now csum now fi else Some fi) of
       None \<Rightarrow> None
     | Some fi \<Rightarrow>
        (let fi = fi\<lparr>other := (other fi)\<lparr>logged := s32 (logged (other fi) + 1)\<rparr>\<rparr>;
             fi = (if max_length (other fi) < data_length (rd fi)
                   then fi\<lparr>other := (other fi)\<lparr>max_length := data_length (rd fi)\<rparr>\<rparr> else fi)
         in Some (fi\<lparr>ro := (ro fi)\<lparr>some_data := 1\<rparr>\<rparr>)))"

definition log_overflow ::
  "(shall_devsuper \<Rightarrow> 32 word) \<Rightarrow> (byte list \<Rightarrow> 32 word) \<Rightarrow> timespec \<Rightarrow> shall_fsinfo \<Rightarrow> int
     \<Rightarrow> shall_fsinfo option" where
  "log_overflow csum crc now fi space =
    (let nd = num_dropped (lq fi);
         fi = fi\<lparr>lq := (lq fi)\<lparr>num_dropped := s32 (num_dropped (lq fi) + 1),
                                 extra_space := s64 (extra_space (lq fi) + space)\<rparr>\<rparr>
     in if nd > 0 then Some fi
        else
         let next_header = logsize fi sizeof_devheader in
         if next_header + data_length (rd fi) > data_space (ro fi) then Some fi
         else
          case need_commit csum now fi next_header of None \<Rightarrow> None
          | Some fi \<Rightarrow>
          case add_blob fi (devheader_bytes
                 (mk_header crc next_header SHALL_OVERFLOW now 0 SHALL_LOG_NODATA)) of
            None \<Rightarrow> None
          | Some fi \<Rightarrow>
          case (if next_header > sizeof_devheader
                then add_padding fi (next_header - sizeof_devheader) else Some fi) of
            None \<Rightarrow> None
          | Some fi \<Rightarrow> logged_one csum now fi)"

text \<open>
  A call either returns or stays on a wait queue: in \<open>Waits\<close> the caller is suspended
  (or keeps re-testing) on a condition that only another thread can change, and the
  state is the one it left behind under the mutex.
\<close>

datatype 'a call = Returns 'a | Waits

text \<open>\<open>dptr[i]\<close> with \<open>dlen[i]\<close> its length; a missing entry is empty.\<close>

definition arg :: "byte list list \<Rightarrow> nat \<Rightarrow> byte list" where
  "arg dptr i = (if i < length dptr then dptr ! i else [])"

definition dlen :: "byte list list \<Rightarrow> nat \<Rightarrow> int" where
  "dlen dptr i = int (length (arg dptr i))"

text \<open>The number of file names counted by \<open>data\<close>.\<close>

definition data_index :: "32 word \<Rightarrow> nat" where
  "data_index flags =
     (if flags AND SHALL_LOG_FILE1 \<noteq> 0 then 1 else 0)
     + (if flags AND SHALL_LOG_FILE2 \<noteq> 0 then 1 else 0)"

text \<open>The unpadded \<open>next_header\<close> computed after \<open>retry_logging\<close> (an \<open>unsigned int\<close>).\<close>

definition unpadded_size :: "32 word \<Rightarrow> byte list list \<Rightarrow> int" where
  "unpadded_size flags dptr =
     u32 (sizeof_devheader + sizeof_devcreds
          + (if flags AND SHALL_LOG_FILE1 \<noteq> 0 then sizeof_devfileid + dlen dptr 0 else 0)
          + (if flags AND SHALL_LOG_FILE2 \<noteq> 0 then sizeof_devfileid + dlen dptr 1 else 0)
          + (if flags AND SHALL_LOG_DMASK \<noteq> 0 then dlen dptr (data_index flags) else 0))"

primrec add_blobs :: "shall_fsinfo \<Rightarrow> byte list list \<Rightarrow> shall_fsinfo option" where
  "add_blobs fi [] = Some fi"
| "add_blobs fi (b # bs) = (case add_blob fi b of None \<Rightarrow> None | Some fi' \<Rightarrow> add_blobs fi' bs)"

text \<open>The blobs of one record in the order \<open>append_logs\<close> adds them, before the padding.\<close>

definition record_blobs ::
  "shall_devheader \<Rightarrow> shall_devcreds \<Rightarrow> 32 word \<Rightarrow> byte list list \<Rightarrow> byte list list" where
  "record_blobs lh dcreds flags dptr =
     [devheader_bytes lh]
     @ (if flags AND SHALL_LOG_CREDS \<noteq> 0 then [devcreds_bytes dcreds] else [])
     @ (if flags AND SHALL_LOG_FILE1 \<noteq> 0
        then [le32 (word_of_int (dlen dptr 0)), arg dptr 0] else [])
     @ (if flags AND SHALL_LOG_FILE2 \<noteq> 0
        then [le32 (word_of_int (dlen dptr 1)), arg dptr 1] else [])
     @ (if flags AND SHALL_LOG_DMASK \<noteq> 0 then [arg dptr (data_index flags)] else [])"

definition out_noerror :: "shall_fsinfo \<Rightarrow> shall_fsinfo" where
  "out_noerror fi =
    (let fi = (if max_length (other fi) < data_length (rd fi)
               then fi\<lparr>other := (other fi)\<lparr>max_length := data_length (rd fi)\<rparr>\<rparr> else fi)
     in fi\<lparr>ro := (ro fi)\<lparr>some_data := 1\<rparr>\<rparr>)"

text \<open>
  \<open>append_logs\<close> from the computation of \<open>required\<close> on, for a record whose
  \<open>next_header\<close> fits the commit buffer. The tests repeated after the mutex is taken
  again can only differ when another thread has remounted, and are left out.
\<close>

definition append_store ::
  "(shall_devsuper \<Rightarrow> 32 word) \<Rightarrow> (byte list \<Rightarrow> 32 word) \<Rightarrow> timespec \<Rightarrow> shall_devcreds
     \<Rightarrow> shall_fsinfo \<Rightarrow> int \<Rightarrow> int \<Rightarrow> 32 word \<Rightarrow> byte list list \<Rightarrow> int \<Rightarrow> int
     \<Rightarrow> (int call \<times> shall_fsinfo) option" where
  "append_store csum crc now dcreds fi operation result flags dptr next_header padding =
    (let lh = mk_header crc next_header operation now result flags;
         required = u32 (logsize fi sizeof_devheader + next_header)
     in if allow_commit_thread (ro fi) = 0 then Some (Waits, fi)
        else if required + data_length (rd fi) > data_space (ro fi) then
          (case log_overflow csum crc now fi next_header of
             None \<Rightarrow> None
           | Some fi \<Rightarrow>
               if IS_DROP fi then Some (Returns 0, out_noerror fi) else Some (Waits, fi))
        else
          (case need_commit csum now fi next_header of None \<Rightarrow> None
           | Some fi \<Rightarrow>
           case add_blobs fi (record_blobs lh dcreds flags dptr) of None \<Rightarrow> None
           | Some fi \<Rightarrow>
           case (if padding > 0 then add_padding fi padding else Some fi) of None \<Rightarrow> None
           | Some fi \<Rightarrow> Some (Returns 0, out_noerror fi)))"

definition append_logs ::
  "(shall_devsuper \<Rightarrow> 32 word) \<Rightarrow> (byte list \<Rightarrow> 32 word) \<Rightarrow> timespec \<Rightarrow> shall_devcreds
     \<Rightarrow> shall_fsinfo \<Rightarrow> int \<Rightarrow> int \<Rightarrow> 32 word \<Rightarrow> byte list list
     \<Rightarrow> (int call \<times> shall_fsinfo) option" where
  "append_logs csum crc now dcreds fi operation result flags dptr =
    (let flags = flags OR SHALL_LOG_CREDS;
         unpadded = unpadded_size flags dptr;
         next_header = u32 (logsize fi unpadded);
         padding = u32 (next_header - unpadded)
     in if next_header > u32 (commit_size (options fi)) then
          (if operation = SHALL_TOO_BIG then Some (Returns (- EFBIG), fi)
           else if IS_ERROR fi then Some (Returns (- EFBIG), fi)
           else
            let operation = SHALL_TOO_BIG;
                result = s32 next_header;
                flags = SHALL_LOG_NODATA;
                unpadded = unpadded_size flags dptr;
                next_header = u32 (logsize fi unpadded);
                padding = u32 (next_header - unpadded)
            in if next_header > u32 (commit_size (options fi)) then Some (Returns (- EFBIG), fi)
               else append_store csum crc now dcreds fi operation result flags dptr
                      next_header padding)
        else append_store csum crc now dcreds fi operation result flags dptr
               next_header padding)"

text \<open>\<open>shall_log_1n\<close>: one file name, no other data.\<close>

definition shall_log_1n ::
  "(shall_devsuper \<Rightarrow> 32 word) \<Rightarrow> (byte list \<Rightarrow> 32 word) \<Rightarrow> timespec \<Rightarrow> shall_devcreds
     \<Rightarrow> shall_fsinfo \<Rightarrow> int \<Rightarrow> byte list \<Rightarrow> int \<Rightarrow> (int call \<times> shall_fsinfo) option" where
  "shall_log_1n csum crc now dcreds fi operation name result =
     append_logs csum crc now dcreds fi operation result SHALL_LOG_FILE1 [name]"

text \<open>
  \<open>shall_log_recovery\<close>. In the source the first \<open>return\<close> has no semicolon, so that
  the \<open>spin_lock\<close> that follows is its operand: the lock is taken on that return and
  on no other path. Locks are not part of the state here; the counters are read and
  cleared as written.
\<close>

definition shall_log_recovery ::
  "(shall_devsuper \<Rightarrow> 32 word) \<Rightarrow> (byte list \<Rightarrow> 32 word) \<Rightarrow> timespec \<Rightarrow> shall_fsinfo
     \<Rightarrow> shall_fsinfo option" where
  "shall_log_recovery csum crc now fi =
    (let data_size = sizeof_devheader + sizeof_devsize;
         next_header = logsize fi data_size;
         required = next_header + logsize fi sizeof_devheader
     in if required + data_length (rd fi) > data_space (ro fi) then Some fi
        else if num_dropped (lq fi) = 0 then Some fi
        else
         let extra = extra_space (lq fi);
             nd = num_dropped (lq fi);
             fi = fi\<lparr>lq := (lq fi)\<lparr>extra_space := 0, num_dropped := 0\<rparr>\<rparr>
         in case need_commit csum now fi next_header of None \<Rightarrow> None
            | Some fi \<Rightarrow>
            case add_blobs fi
                   [devheader_bytes (mk_header crc next_header SHALL_RECOVER now nd SHALL_LOG_SIZE),
                    le64 (word_of_int extra)] of
              None \<Rightarrow> None
            | Some fi \<Rightarrow>
            case (if next_header > data_size
                  then add_padding fi (next_header - data_size) else Some fi) of
              None \<Rightarrow> None
            | Some fi \<Rightarrow> logged_one csum now fi)"

section \<open>Consumers (unnamed/part_006)\<close>

text \<open>
  \<open>get_log_devheader\<close>: the return value, the 32 bytes read into \<open>evh\<close> (none when
  the read returned early) and the state.
\<close>

definition get_log_devheader ::
  "(byte list \<Rightarrow> 32 word) \<Rightarrow> shall_fsinfo \<Rightarrow> (int \<times> byte list \<times> shall_fsinfo) option" where
  "get_log_devheader crc fi =
    (case shall_read_data_kernel fi sizeof_devheader of
       None \<Rightarrow> None
     | Some (err, evh, fi) \<Rightarrow>
        if err \<le> 0 then Some (err, evh, fi)
        else if checksum_header crc evh \<noteq> dh_checksum (devheader_of_bytes evh)
          then Some (- EINVAL, evh, fi)
        else
         let next_header = sint (dh_next_header (devheader_of_bytes evh)) in
         if u64 next_header < sizeof_devheader then Some (- EINVAL, evh, fi)
         else if u64 (data_length (rd fi)) < u64 (next_header - sizeof_devheader)
           then Some (- EINVAL, evh, fi)
         else Some (next_header, evh, fi))"

definition publish_some_data :: "shall_fsinfo \<Rightarrow> shall_fsinfo" where
  "publish_some_data fi =
     fi\<lparr>ro := (ro fi)\<lparr>some_data := (if data_length (rd fi) \<ge> sizeof_devheader then 1 else 0)\<rparr>\<rparr>"

text \<open>
  The loop of \<open>shall_bin_logs\<close>. The first component of the result is \<open>None\<close> when the
  loop ends on its condition, and otherwise the value of the function's variable
  \<open>err\<close> on arrival at \<open>out_restore\<close>. The loop body declares an \<open>err\<close> of its own,
  which receives the results of \<open>get_log_devheader\<close> and \<open>shall_read_data_user\<close>: a jump
  to \<open>out_restore\<close> after one of those leaves the function's \<open>err\<close> at 0, and only
  \<open>out_invalid\<close>, \<open>out_nospace\<close> and \<open>out_fault\<close> assign it. \<open>out\<close> is what the user
  buffer holds up to \<open>done\<close>.
\<close>

function bin_logs_loop ::
  "(byte list \<Rightarrow> 32 word) \<Rightarrow> bool \<Rightarrow> shall_fsinfo \<Rightarrow> shall_sbinfo_rw_read \<Rightarrow> int \<Rightarrow> int
     \<Rightarrow> byte list
     \<Rightarrow> (int option \<times> shall_fsinfo \<times> shall_sbinfo_rw_read \<times> int \<times> byte list) option" where
  "bin_logs_loop crc uok fi save space done out =
    (if space \<ge> sizeof_devheader then
       (let save = rd fi in
        case get_log_devheader crc fi of
          None \<Rightarrow> None
        | Some (err, evh, fi) \<Rightarrow>
           if err \<le> 0 then Some (Some 0, fi, save, done, out)
           else
            let next_header = err in
            if space < u64 next_header then Some (Some (- EFBIG), fi, save, done, out)
            else if \<not> uok then Some (Some (- EFAULT), fi, save, done, out)
            else if u64 next_header > sizeof_devheader then
              (case shall_read_data_user uok fi (u64 (next_header - sizeof_devheader)) of
                 None \<Rightarrow> None
               | Some (e, bytes, fi) \<Rightarrow>
                  if s32 e < 0 then Some (Some 0, fi, save, done, out)
                  else if s32 e = 0 then Some (Some (- EINVAL), fi, save, done, out)
                  else bin_logs_loop crc uok fi save (u64 (space - next_header))
                         (done + next_header) (out @ evh @ bytes))
            else bin_logs_loop crc uok fi save (u64 (space - next_header))
                   (done + next_header) (out @ evh))
     else Some (None, fi, save, done, out))"
  by pat_completeness auto
termination
proof -
  have b: "sint (w :: 32 word) < 2 ^ 31" for w using sint_lt[of w] by simp
  have c: "0 < sint w \<Longrightarrow> \<not> u64 (sint w) < 32 \<Longrightarrow> 32 \<le> sint w" for w :: "32 word"
    using b[of w] by (simp add: u64_def)
  have pos: "32 \<le> err \<and> err < 2 ^ 31"
    if "get_log_devheader crc fi = Some (err, evh, fi')" "\<not> err \<le> 0" for crc fi err evh fi'
    using that b c
    by (auto simp: get_log_devheader_def sizeof_devheader_def Let_def EINVAL_def
        split: option.splits if_splits prod.splits)
  have u: "u64 err = err" if "32 \<le> err" "err < 2 ^ 31" for err :: int
    using that by (simp add: u64_def)
  have d: "u64 (space - err) < space" if "32 \<le> err" "err \<le> space" for space err :: int
  proof -
    have "u64 (space - err) \<le> space - err"
      unfolding u64_def using that by (intro zmod_le_nonneg_dividend) simp
    then show ?thesis using that by simp
  qed
  show ?thesis
    by (relation "measure (\<lambda>(crc, uok, fi, save, space, done, out). nat space)")
       (auto dest!: pos simp: u d sizeof_devheader_def)
qed

declare bin_logs_loop.simps [simp del]

definition shall_bin_logs ::
  "(shall_devsuper \<Rightarrow> 32 word) \<Rightarrow> (byte list \<Rightarrow> 32 word) \<Rightarrow> timespec \<Rightarrow> bool \<Rightarrow> shall_fsinfo
     \<Rightarrow> int \<Rightarrow> (int \<times> byte list \<times> shall_fsinfo) option" where
  "shall_bin_logs csum crc now uok fi space =
    (if space < 1 then Some (0, [], fi)
     else
      case bin_logs_loop crc uok fi (rd fi) space 0 [] of
        None \<Rightarrow> None
      | Some (None, fi, save, done, out) \<Rightarrow>
          (case shall_log_recovery csum crc now (publish_some_data fi) of
             None \<Rightarrow> None
           | Some fi \<Rightarrow> Some (done, out, fi))
      | Some (Some err, fi, save, done, out) \<Rightarrow>
          (let fi = publish_some_data (fi\<lparr>rd := save\<rparr>) in
           case (if done > 0 then shall_log_recovery csum crc now fi else Some fi) of
             None \<Rightarrow> None
           | Some fi \<Rightarrow> Some (if done > 0 then done else err, out, fi)))"

text \<open>
  The loop of \<open>shall_delete_logs\<close>, which has a single \<open>err\<close>: the value carried to
  \<open>out_restore\<close> is the last one assigned, the event length included.
\<close>

function delete_logs_loop ::
  "(byte list \<Rightarrow> 32 word) \<Rightarrow> shall_fsinfo \<Rightarrow> shall_sbinfo_rw_read \<Rightarrow> int \<Rightarrow> int
     \<Rightarrow> (int option \<times> shall_fsinfo \<times> shall_sbinfo_rw_read \<times> int) option" where
  "delete_logs_loop crc fi save skip done =
    (if skip \<ge> sizeof_devheader then
       (let save = rd fi in
        case get_log_devheader crc fi of
          None \<Rightarrow> None
        | Some (err, evh, fi) \<Rightarrow>
           if err \<le> 0 then Some (Some err, fi, save, done)
           else
            let evlen = err in
            if skip < u64 evlen then Some (Some err, fi, save, done)
            else if u64 evlen > sizeof_devheader then
              (case shall_mark_read fi (u64 (evlen - sizeof_devheader)) of
                 None \<Rightarrow> None
               | Some (e, bytes, fi) \<Rightarrow>
                  if e \<le> 0 then Some (Some e, fi, save, done)
                  else delete_logs_loop crc fi save (u64 (skip - evlen)) (done + evlen))
            else delete_logs_loop crc fi save (u64 (skip - evlen)) (done + evlen))
     else Some (None, fi, save, done))"
  by pat_completeness auto
termination
proof -
  have b: "sint (w :: 32 word) < 2 ^ 31" for w using sint_lt[of w] by simp
  have c: "0 < sint w \<Longrightarrow> \<not> u64 (sint w) < 32 \<Longrightarrow> 32 \<le> sint w" for w :: "32 word"
    using b[of w] by (simp add: u64_def)
  have pos: "32 \<le> err \<and> err < 2 ^ 31"
    if "get_log_devheader crc fi = Some (err, evh, fi')" "\<not> err \<le> 0" for crc fi err evh fi'
    using that b c
    by (auto simp: get_log_devheader_def sizeof_devheader_def Let_def EINVAL_def
        split: option.splits if_splits prod.splits)
  have u: "u64 err = err" if "32 \<le> err" "err < 2 ^ 31" for err :: int
    using that by (simp add: u64_def)
  have d: "u64 (space - err) < space" if "32 \<le> err" "err \<le> space" for space err :: int
  proof -
    have "u64 (space - err) \<le> space - err"
      unfolding u64_def using that by (intro zmod_le_nonneg_dividend) simp
    then show ?thesis using that by simp
  qed
  show ?thesis
    by (relation "measure (\<lambda>(crc, fi, save, skip, done). nat skip)")
       (auto dest!: pos simp: u d sizeof_devheader_def)
qed

declare delete_logs_loop.simps [simp del]

definition shall_delete_logs ::
  "(shall_devsuper \<Rightarrow> 32 word) \<Rightarrow> (byte list \<Rightarrow> 32 word) \<Rightarrow> timespec \<Rightarrow> shall_fsinfo \<Rightarrow> int
     \<Rightarrow> (int \<times> shall_fsinfo) option" where
  "shall_delete_logs csum crc now fi skip =
    (if skip < 1 then Some (0, fi)
     else
      case delete_logs_loop crc fi (rd fi) skip 0 of
        None \<Rightarrow> None
      | Some (None, fi, save, done) \<Rightarrow>
          (case shall_log_recovery csum crc now (publish_some_data fi) of
             None \<Rightarrow> None
           | Some fi \<Rightarrow> Some (s32 done, fi))
      | Some (Some err, fi, save, done) \<Rightarrow>
          (let fi = publish_some_data (fi\<lparr>rd := save\<rparr>) in
           case (if done > 0 then shall_log_recovery csum crc now fi else Some fi) of
             None \<Rightarrow> None
           | Some fi \<Rightarrow> Some (s32 (if done > 0 then done else err), fi)))"

section \<open>Mount (unnamed/part_008, the kernel's super.c)\<close>

text \<open>
  \<open>search_superblock\<close>, entered with \<open>n\<close> before its increment. Overflow of the
  \<open>int\<close> counter is undefined in C and \<open>None\<close> here.
\<close>

function search_superblock_from ::
  "(shall_devsuper \<Rightarrow> 32 word) \<Rightarrow> shall_fsinfo \<Rightarrow> int \<Rightarrow> (int \<times> shall_fsinfo) option" where
  "search_superblock_from csum fi n =
    (let limit = u64 (cdiv (i_size (dev fi)) SHALL_DEV_BLOCK);
         n = n + 1
     in if n \<ge> 2 ^ 31 then None
        else if shall_superblock_location n \<ge> limit then Some (- EINVAL, fi)
        else case shall_read_superblock csum fi n of
               (err, reason, fi') \<Rightarrow>
                 if err \<ge> 0 then Some (0, fi') else search_superblock_from csum fi' n)"
  by pat_completeness auto
termination
  by (relation "measure (\<lambda>(csum, fi, n). nat (2 ^ 31 - n))") auto

declare search_superblock_from.simps [simp del]

definition search_superblock ::
  "(shall_devsuper \<Rightarrow> 32 word) \<Rightarrow> shall_fsinfo \<Rightarrow> (int \<times> shall_fsinfo) option" where
  "search_superblock csum fi = search_superblock_from csum fi 0"

text \<open>
  \<open>scan_all_superblocks\<close>: \<open>sbi\<close> is the copy of \<open>fi->sbi\<close> kept so far, as the three
  parts of the state it consists of; its \<open>num_superblocks\<close> bounds the loop.
\<close>

function scan_all_from ::
  "(shall_devsuper \<Rightarrow> 32 word) \<Rightarrow> shall_fsinfo
     \<Rightarrow> shall_sbinfo_ro \<times> shall_sbinfo_rw_read \<times> shall_sbinfo_rw_other \<Rightarrow> int
     \<Rightarrow> shall_fsinfo option" where
  "scan_all_from csum fi sbi n =
    (case sbi of (sro, srd, sother) \<Rightarrow>
      if n < num_superblocks sro then
        (if n + 1 \<ge> 2 ^ 31 then None
         else case shall_read_superblock csum fi n of
           (err, reason, fi') \<Rightarrow>
             if err < 0 then scan_all_from csum fi' sbi (n + 1)
             else if version (other fi') \<le> version sother then scan_all_from csum fi' sbi (n + 1)
             else scan_all_from csum fi' (ro fi', rd fi', other fi') (n + 1))
      else Some (fi\<lparr>ro := sro, rd := srd, other := sother\<rparr>))"
  by pat_completeness auto
termination
  by (relation "measure (\<lambda>(csum, fi, sbi, n). nat (2 ^ 31 - n))") auto

declare scan_all_from.simps [simp del]

definition scan_all_superblocks ::
  "(shall_devsuper \<Rightarrow> 32 word) \<Rightarrow> shall_fsinfo \<Rightarrow> shall_fsinfo option" where
  "scan_all_superblocks csum fi = scan_all_from csum fi (ro fi, rd fi, other fi) 0"

text \<open>The loop of \<open>shall_update_superblock\<close> with \<open>i\<close> iterations left.\<close>

primrec update_superblock_loop ::
  "(shall_devsuper \<Rightarrow> 32 word) \<Rightarrow> int \<Rightarrow> nat \<Rightarrow> shall_fsinfo \<Rightarrow> int \<Rightarrow> int \<times> shall_fsinfo" where
  "update_superblock_loop csum diff 0 fi which =
     (0, fi\<lparr>other := (other fi)\<lparr>last_sb_written := which\<rparr>\<rparr>)"
| "update_superblock_loop csum diff (Suc i) fi which =
     (case shall_write_superblock csum fi which True of
        (err, fi) \<Rightarrow>
          if err < 0 then (err, fi)
          else
           let which = which + diff;
               which = (if which \<ge> num_superblocks (ro fi)
                        then which - num_superblocks (ro fi) else which)
           in update_superblock_loop csum diff i fi which)"

definition shall_update_superblock ::
  "(shall_devsuper \<Rightarrow> 32 word) \<Rightarrow> shall_fsinfo \<Rightarrow> int \<times> shall_fsinfo" where
  "shall_update_superblock csum fi =
    (let fi = fi\<lparr>other := (other fi)\<lparr>version := s64 (version (other fi) + 1)\<rparr>\<rparr>;
         nrecs = (if 7 > num_superblocks (ro fi) then num_superblocks (ro fi) else 7);
         diff = cdiv (num_superblocks (ro fi)) nrecs
     in update_superblock_loop csum diff (nat nrecs) fi 0)"

text \<open>
  What \<open>shall_fill_super\<close> gets from outside the engine: the mount flags, whether the
  block size could be set and the state allocated, the options as parsed, the first
  error of the steps between the choice of the superblock and the initialisation of the
  state (option parsing, path lookup, buffers, root inode, proc entries; 0 for none),
  the error of creating the commit thread, the clock, the option string and the
  credentials of the caller.
\<close>

record mount_env =
  ms_rdonly :: bool
  blocksize_ok :: bool
  kmalloc_ok :: bool
  mnt_options :: shall_options
  setup_err :: int
  thread_err :: int
  mnt_now :: timespec
  mnt_data :: "byte list"
  mnt_creds :: shall_devcreds

definition mount_fail :: "int \<Rightarrow> int" where
  "mount_fail err = (if err < 0 then err else - EINVAL)"

text \<open>
  The initialisation of the in-memory state in \<open>shall_fill_super\<close>, between the setup
  of the root inode and the start of the commit thread: the end-of-ring pointer, the
  counters, the two cursors computed from \<open>data_start\<close> and \<open>data_length\<close>, the empty
  commit buffer and the queue.
\<close>

definition mount_init :: "timespec \<Rightarrow> shall_fsinfo \<Rightarrow> shall_fsinfo" where
  "mount_init now fi =
    (let fi = fi\<lparr>ro := (ro fi)\<lparr>maxptr := (maxptr (ro fi))
                 \<lparr>block := cdiv (data_space (ro fi)) SHALL_DEV_BLOCK,
                  n_super := num_superblocks (ro fi),
                  offset := SHALL_DEV_BLOCK\<rparr>\<rparr>\<rparr>;
         fi = fi\<lparr>other := (other fi)\<lparr>last_commit := tv_sec now, logged := 0,
                 commit_count := [0, 0, 0]\<rparr>\<rparr>;
         fi = fi\<lparr>rd := (rd fi)\<lparr>committed := data_length (rd fi)\<rparr>\<rparr>;
         fi = fi\<lparr>rd := (rd fi)\<lparr>startptr :=
                 shall_calculate_block (data_start (rd fi)) (num_superblocks (ro fi))\<rparr>\<rparr>;
         data_end = s64 (data_start (rd fi) + data_length (rd fi));
         data_end = (if data_end \<ge> data_space (ro fi)
                     then data_end - data_space (ro fi) else data_end);
         fi = fi\<lparr>rd := (rd fi)\<lparr>commitptr :=
                 shall_calculate_block data_end (num_superblocks (ro fi))\<rparr>\<rparr>;
         fi = fi\<lparr>rd := (rd fi)\<lparr>buffer_read := 0, buffer_written := 0\<rparr>\<rparr>;
         fi = fi\<lparr>lq := \<lparr>extra_space = 0, num_dropped = 0\<rparr>\<rparr>
     in fi\<lparr>ro := (ro fi)\<lparr>allow_commit_thread := 1, inside_commit := 0,
                 some_data := (if data_length (rd fi) > 0 then 1 else 0)\<rparr>\<rparr>)"

definition shall_fill_super ::
  "(shall_devsuper \<Rightarrow> 32 word) \<Rightarrow> (byte list \<Rightarrow> 32 word) \<Rightarrow> mount_env \<Rightarrow> shall_fsinfo
     \<Rightarrow> (int call \<times> shall_fsinfo) option" where
  "shall_fill_super csum crc env fi =
    (if ms_rdonly env then Some (Returns (- EINVAL), fi)
     else if \<not> blocksize_ok env then Some (Returns (- EINVAL), fi)
     else if \<not> kmalloc_ok env then Some (Returns (- ENOMEM), fi)
     else
      case (case shall_read_superblock csum fi 0 of
              (err, reason, fi') \<Rightarrow>
                if err < 0 then search_superblock csum fi' else Some (err, fi')) of
        None \<Rightarrow> None
      | Some (err, fi) \<Rightarrow>
         if err < 0 then Some (Returns (mount_fail err), fi)
         else if sb_flags (ro fi) AND SHALL_SB_UPDATE \<noteq> 0
           then Some (Returns (mount_fail (- EAGAIN)), fi)
         else
          case (if sb_flags (ro fi) AND SHALL_SB_DIRTY \<noteq> 0
                then scan_all_superblocks csum fi else Some fi) of
            None \<Rightarrow> None
          | Some fi \<Rightarrow>
             let fi = fi\<lparr>options := mnt_options env\<rparr> in
             if setup_err env \<noteq> 0 then Some (Returns (mount_fail (setup_err env)), fi)
             else
              let now = mnt_now env;
                  fi = mount_init now fi
              in if thread_err env \<noteq> 0 then Some (Returns (mount_fail (thread_err env)), fi)
                 else
                  let fi = fi\<lparr>ro := (ro fi)\<lparr>sb_flags := sb_flags (ro fi) OR SHALL_SB_DIRTY\<rparr>\<rparr> in
                  case shall_update_superblock csum fi of
                    (err, fi) \<Rightarrow>
                      if err \<noteq> 0 then Some (Returns (mount_fail err), fi)
                      else
                       case shall_log_1n csum crc now (mnt_creds env) fi SHALL_MOUNT
                              (mnt_data env) 0 of
                         None \<Rightarrow> None
                       | Some (Waits, fi) \<Rightarrow> Some (Waits, fi)
                       | Some (Returns r, fi) \<Rightarrow> Some (Returns 0, fi))"

section \<open>The states the engine can be in between operations\<close>

text \<open>
  The accounting identity of the journal, and the same with the two bounds that hold
  along with it: nothing consumed that was not committed, nothing taken from the commit
  buffer that was not put there.
\<close>

definition accounting :: "shall_fsinfo \<Rightarrow> bool" where
  "accounting fi \<longleftrightarrow>
     committed (rd fi) + (buffer_written (rd fi) - buffer_read (rd fi)) = data_length (rd fi)"

definition inv_rd :: "shall_sbinfo_rw_read \<Rightarrow> bool" where
  "inv_rd r \<longleftrightarrow>
     committed r + (buffer_written r - buffer_read r) = data_length r
     \<and> 0 \<le> committed r \<and> buffer_read r \<le> buffer_written r"

text \<open>
  The states reached from a successful mount by calls of the operations that have
  returned. A call of \<open>append_logs\<close> that is left waiting has not returned. A read
  (\<open>shall_read_data_kernel\<close>, \<open>shall_read_data_user\<close>, \<open>shall_mark_read\<close>) counts when
  it returns a byte count, not when it returns an error from the middle of its loop:
  the callers of the three in the kernel restore the state they saved when that
  happens, which is part of \<open>shall_bin_logs\<close> and \<open>shall_delete_logs\<close> below.
\<close>

inductive reachable ::
  "(shall_devsuper \<Rightarrow> 32 word) \<Rightarrow> (byte list \<Rightarrow> 32 word) \<Rightarrow> shall_fsinfo \<Rightarrow> bool"
  for csum :: "shall_devsuper \<Rightarrow> 32 word" and crc :: "byte list \<Rightarrow> 32 word" where
  mounted: "shall_fill_super csum crc env fi = Some (Returns 0, fi') \<Longrightarrow> reachable csum crc fi'"
| appended: "reachable csum crc fi \<Longrightarrow>
     append_logs csum crc now dcreds fi operation result flags dptr = Some (Returns r, fi')
     \<Longrightarrow> reachable csum crc fi'"
| written: "reachable csum crc fi \<Longrightarrow>
     shall_write_data csum t fi why sync = Some (r, fi') \<Longrightarrow> reachable csum crc fi'"
| read_kernel: "reachable csum crc fi \<Longrightarrow>
     shall_read_data_kernel fi len = Some (r, bs, fi') \<Longrightarrow> 0 \<le> r \<Longrightarrow> reachable csum crc fi'"
| read_user: "reachable csum crc fi \<Longrightarrow>
     shall_read_data_user uok fi len = Some (r, bs, fi') \<Longrightarrow> 0 \<le> r \<Longrightarrow> reachable csum crc fi'"
| marked_read: "reachable csum crc fi \<Longrightarrow>
     shall_mark_read fi len = Some (r, bs, fi') \<Longrightarrow> 0 \<le> r \<Longrightarrow> reachable csum crc fi'"
| bin_logs: "reachable csum crc fi \<Longrightarrow>
     shall_bin_logs csum crc now uok fi space = Some (r, bs, fi') \<Longrightarrow> reachable csum crc fi'"
| deleted_logs: "reachable csum crc fi \<Longrightarrow>
     shall_delete_logs csum crc now fi skip = Some (r, fi') \<Longrightarrow> reachable csum crc fi'"

section \<open>Concrete devices and states used to exercise the theorems\<close>

text \<open>A freshly formatted device of 1100 blocks with 9 superblocks and alignment 8.\<close>

definition ds0 :: shall_devsuper where
  "ds0 = \<lparr>ds_magic1 = ''SHALL 01'', ds_device_size = 4505600, ds_data_space = 4468736,
     ds_data_start = 0, ds_data_length = 0, ds_max_length = 0, ds_version = 1,
     ds_flags = 1, ds_alignment = 8, ds_num_superblocks = 9, ds_this_superblock = 0,
     ds_new_size = 0, ds_new_alignment = 0, ds_new_superblocks = 0,
     ds_magic2 = ''SHALL 01'', ds_checksum = 0\<rparr>"


definition ptr0 :: shall_devptr where
  "ptr0 = \<lparr>block = 0, next_super = 0, offset = 0, n_super = 0\<rparr>"

definition dev0 :: shall_device where
  "dev0 = \<lparr>i_size = 4505600, supers = (\<lambda>_. ds0), blocks = (\<lambda>_ _. 0),
     rd_fail = (\<lambda>_. False), sync_err = (\<lambda>_. 0)\<rparr>"

text \<open>The state before mount has read anything: every scalar zero.\<close>

definition fi0 :: shall_fsinfo where
  "fi0 = \<lparr>options = \<lparr>commit_seconds = 5, commit_size = 4096, opt_flags = 0\<rparr>,
     ro = \<lparr>device_size = 0, data_space = 0, num_superblocks = 0, log_alignment = 0,
           sb_flags = 0, maxptr = ptr0, allow_commit_thread = 1, inside_commit = 0,
           some_data = 0\<rparr>,
     rd = \<lparr>data_start = 0, data_length = 0, committed = 0, startptr = ptr0,
           commitptr = ptr0, buffer_written = 0, buffer_read = 0\<rparr>,
     other = \<lparr>last_commit = 0, last_sb_written = 0, max_length = 0, version = 0,
           logged = 0, commit_count = [0, 0, 0], commit_buffer = (\<lambda>_. 0)\<rparr>,
     lq = \<lparr>extra_space = 0, num_dropped = 0\<rparr>,
     dev = dev0\<rparr>"

text \<open>Checksum functions that make every checksum 0.\<close>

definition csum0 :: "shall_devsuper \<Rightarrow> 32 word" where "csum0 ds = 0"
definition crc0 :: "byte list \<Rightarrow> 32 word" where "crc0 bs = 0"

text \<open>
  The state of that device once mounted, the journal empty: the ring starts at block 1
  and the next superblock is in block 20.
\<close>

definition maxptr1 :: shall_devptr where
  "maxptr1 = \<lparr>block = 1091, next_super = 0, offset = 4096, n_super = 9\<rparr>"

definition ptr1 :: shall_devptr where
  "ptr1 = \<lparr>block = 1, next_super = 20, offset = 0, n_super = 1\<rparr>"

definition fi1 :: shall_fsinfo where
  "fi1 = \<lparr>options = \<lparr>commit_seconds = 5, commit_size = 4096, opt_flags = 0\<rparr>,
     ro = \<lparr>device_size = 4505600, data_space = 4468736, num_superblocks = 9,
           log_alignment = 8, sb_flags = 3, maxptr = maxptr1, allow_commit_thread = 1,
           inside_commit = 0, some_data = 0\<rparr>,
     rd = \<lparr>data_start = 0, data_length = 0, committed = 0, startptr = ptr1,
           commitptr = ptr1, buffer_written = 0, buffer_read = 0\<rparr>,
     other = \<lparr>last_commit = 0, last_sb_written = 0, max_length = 0, version = 2,
           logged = 0, commit_count = [0, 0, 0], commit_buffer = (\<lambda>_. 0)\<rparr>,
     lq = \<lparr>extra_space = 0, num_dropped = 0\<rparr>,
     dev = dev0\<rparr>"

text \<open>The same with 40 uncommitted bytes in the commit buffer.\<close>

definition fi_buf40 :: shall_fsinfo where
  "fi_buf40 = fi1\<lparr>rd := (rd fi1)\<lparr>data_length := 40, buffer_written := 40\<rparr>\<rparr>"


text \<open>The empty journal after a commit at time 7.\<close>

definition fi1_committed :: shall_fsinfo where
  "fi1_committed = fi1\<lparr>other := (other fi1)\<lparr>last_commit := 7\<rparr>\<rparr>"

text \<open>A mount environment in which every step outside the engine succeeds.\<close>

definition env0 :: mount_env where
  "env0 = \<lparr>ms_rdonly = False, blocksize_ok = True, kmalloc_ok = True,
     mnt_options = \<lparr>commit_seconds = 5, commit_size = 4096, opt_flags = 0\<rparr>,
     setup_err = 0, thread_err = 0, mnt_now = \<lparr>tv_sec = 7, tv_nsec = 0\<rparr>,
     mnt_data = [], mnt_creds = \<lparr>dc_uid = 0, dc_euid = 0, dc_fsuid = 0, dc_gid = 0,
       dc_egid = 0, dc_fsgid = 0\<rparr>\<rparr>"

text \<open>The device with \<open>VALID\<close> and \<open>UPDATE\<close> set in every superblock.\<close>

definition fi_upd :: shall_fsinfo where
  "fi_upd = fi0\<lparr>dev := dev0\<lparr>supers := (\<lambda>_. ds0\<lparr>ds_flags := 5\<rparr>)\<rparr>\<rparr>"

text \<open>
  A device whose superblock 1 (block 20) is valid with \<open>UPDATE\<close> set and whose other
  superblocks have a wrong magic string.
\<close>

definition fi_upd1 :: shall_fsinfo where
  "fi_upd1 = fi0\<lparr>dev := dev0\<lparr>supers :=
      (\<lambda>b. if b = 20 then ds0\<lparr>ds_this_superblock := 1, ds_flags := 5\<rparr>
           else ds0\<lparr>ds_magic1 := ''SHALL 00''\<rparr>)\<rparr>\<rparr>"

chapter \<open>Properties\<close>

section \<open>Arithmetic of the C conventions\<close>





section \<open>The last-superblock check\<close>










section \<open>Reading more than the journal holds\<close>






section \<open>Commit\<close>

lemma write_superblock_parts [simp]:
  "rd (snd (shall_write_superblock csum fi n sync)) = rd fi"
  "other (snd (shall_write_superblock csum fi n sync)) = other fi"
  "ro (snd (shall_write_superblock csum fi n sync)) = ro fi"
  "options (snd (shall_write_superblock csum fi n sync)) = options fi"
  "lq (snd (shall_write_superblock csum fi n sync)) = lq fi"
  by (simp_all add: shall_write_superblock_def Let_def)

lemma write_done_parts [simp]:
  "rd (snd (write_done csum now sync fi dn)) = (rd fi)\<lparr>buffer_read := 0, buffer_written := 0\<rparr>"
  "ro (snd (write_done csum now sync fi dn)) = ro fi"
  "options (snd (write_done csum now sync fi dn)) = options fi"
  "lq (snd (write_done csum now sync fi dn)) = lq fi"
  by (simp_all add: write_done_def Let_def)

lemma write_intent_parts [simp]:
  "other (write_intent fi) = other fi" "ro (write_intent fi) = ro fi"
  "dev (write_intent fi) = dev fi" "lq (write_intent fi) = lq fi"
  "options (write_intent fi) = options fi"
  "data_length (rd (write_intent fi)) = data_length (rd fi)"
  "data_start (rd (write_intent fi)) = data_start (rd fi)"
  "startptr (rd (write_intent fi)) = startptr (rd fi)"
  "buffer_written (rd (write_intent fi)) = buffer_written (rd fi)"
  "committed (rd (write_intent fi)) = committed (rd fi) + write_todo fi"
  "buffer_read (rd (write_intent fi)) = buffer_read (rd fi) + write_todo fi"
  by (simp_all add: write_intent_def Let_def)

lemma write_block_parts [simp]:
  "other (write_block old fi) = other fi" "ro (write_block old fi) = ro fi"
  "rd (write_block old fi) = rd fi" "lq (write_block old fi) = lq fi"
  "options (write_block old fi) = options fi"
  "supers (dev (write_block old fi)) = supers (dev fi)"
  "rd_fail (dev (write_block old fi)) = rd_fail (dev fi)"
  "sync_err (dev (write_block old fi)) = sync_err (dev fi)"
  "i_size (dev (write_block old fi)) = i_size (dev fi)"
  by (simp_all add: write_block_def)

text \<open>A flush that returns 0 has drained the buffer.\<close>

lemma write_data_loop_drained:
  "write_data_loop csum now sync fi dn = Some (0, fi') \<Longrightarrow>
     committed (rd fi') \<ge> data_length (rd fi') \<and> buffer_read (rd fi') = 0
     \<and> buffer_written (rd fi') = 0"
proof (induction csum now sync fi dn arbitrary: fi' rule: write_data_loop.induct)
  case (1 csum now sync fi dn)
  show ?case
  proof (cases "committed (rd fi) \<ge> data_length (rd fi)")
    case True
    with "1.prems" have "write_done csum now sync fi dn = (0, fi')"
      by (subst (asm) write_data_loop.simps) simp
    then have "fi' = snd (write_done csum now sync fi dn)" by simp
    then show ?thesis using True by simp
  next
    case False
    with "1.prems" "1.IH" show ?thesis
      by (subst (asm) write_data_loop.simps) (auto simp: Let_def EIO_def split: if_splits)
  qed
qed

text \<open>With nothing to flush, a commit only stamps the time and clears the buffer counters.\<close>

lemma write_data_nothing:
  assumes "committed (rd fi) \<ge> data_length (rd fi)" "0 \<le> why" "why \<le> 2"
  shows "shall_write_data csum now fi why sync
           = Some (0, fi\<lparr>other := (other fi)\<lparr>last_commit := now\<rparr>,
                         rd := (rd fi)\<lparr>buffer_read := 0, buffer_written := 0\<rparr>\<rparr>)"
  using assms by (simp add: shall_write_data_def write_data_loop.simps write_done_def Let_def)

lemma rotated_sb_invariant [simp]:
  "rotated_sb (write_block old (write_intent fi)) = rotated_sb fi"
  by (simp add: rotated_sb_def)

lemma write_data_loop_version:
  "write_data_loop csum now sync fi dn = Some (0, fi') \<Longrightarrow>
     dn \<or> committed (rd fi) < data_length (rd fi) \<Longrightarrow>
     version (other fi') = s64 (version (other fi) + 1)
     \<and> last_sb_written (other fi') = rotated_sb fi
     \<and> (\<forall>k. k \<noteq> nat (shall_superblock_location (rotated_sb fi))
            \<longrightarrow> supers (dev fi') k = supers (dev fi) k)
     \<and> ds_this_superblock (supers (dev fi') (nat (shall_superblock_location (rotated_sb fi))))
          = word_of_int (rotated_sb fi)
     \<and> ds_version (supers (dev fi') (nat (shall_superblock_location (rotated_sb fi))))
          = word_of_int (version (other fi'))"
proof (induction csum now sync fi dn arbitrary: fi' rule: write_data_loop.induct)
  case (1 csum now sync fi dn)
  show ?case
  proof (cases "committed (rd fi) \<ge> data_length (rd fi)")
    case True
    with "1.prems" have dn: dn by simp
    from True "1.prems" have wd: "write_done csum now sync fi dn = (0, fi')"
      by (subst (asm) write_data_loop.simps) simp
    then show ?thesis using dn
      by (auto simp: write_done_def Let_def rotated_sb_def shall_write_superblock_def
            mk_devsuper_def EIO_def split: if_splits)
  next
    case False
    with "1.prems"(1) "1.IH" show ?thesis
      by (subst (asm) write_data_loop.simps) (auto simp: Let_def EIO_def split: if_splits)
  qed
qed

lemma rotated_sb_range:
  assumes "0 \<le> last_sb_written (other fi)" "last_sb_written (other fi) < num_superblocks (ro fi)"
    "2 \<le> num_superblocks (ro fi)" "num_superblocks (ro fi) < 2 ^ 31"
  shows "1 \<le> rotated_sb fi \<and> rotated_sb fi < num_superblocks (ro fi)"
proof -
  have "s32 (last_sb_written (other fi) + 1) = last_sb_written (other fi) + 1"
    using assms by (simp add: s32_def)
  then show ?thesis using assms by (simp add: rotated_sb_def)
qed

lemma write_data_repeat:
  assumes "shall_write_data csum now fi why sync = Some (0, fi')" "0 \<le> why2" "why2 \<le> 2"
  shows "shall_write_data csum now2 fi' why2 sync2
           = Some (0, fi'\<lparr>other := (other fi')\<lparr>last_commit := now2\<rparr>\<rparr>)"
proof -
  from assms(1) have "write_data_loop csum now sync fi False = Some (0, fi')"
    by (simp add: shall_write_data_def EINVAL_def split: if_splits)
  from write_data_loop_drained[OF this]
  have d: "committed (rd fi') \<ge> data_length (rd fi')" "buffer_read (rd fi') = 0"
    "buffer_written (rd fi') = 0" by simp_all
  have "(rd fi')\<lparr>buffer_read := 0, buffer_written := 0\<rparr> = rd fi'"
    using d by simp
  then show ?thesis
    using write_data_nothing[OF d(1) assms(2,3), of csum now2 sync2] by simp
qed

lemma write_data_bumps:
  assumes "shall_write_data csum now fi why sync = Some (0, fi')"
    "committed (rd fi) < data_length (rd fi)"
  shows "version (other fi') = s64 (version (other fi) + 1)
     \<and> last_sb_written (other fi') = rotated_sb fi
     \<and> (\<forall>k. k \<noteq> nat (shall_superblock_location (rotated_sb fi))
            \<longrightarrow> supers (dev fi') k = supers (dev fi) k)
     \<and> ds_this_superblock (supers (dev fi') (nat (shall_superblock_location (rotated_sb fi))))
          = word_of_int (rotated_sb fi)
     \<and> ds_version (supers (dev fi') (nat (shall_superblock_location (rotated_sb fi))))
          = word_of_int (version (other fi'))"
proof -
  from assms(1) have "write_data_loop csum now sync fi False = Some (0, fi')"
    by (simp add: shall_write_data_def EINVAL_def split: if_splits)
  from write_data_loop_version[OF this] assms(2) show ?thesis by blast
qed

text \<open>
  Claim C8, as stated, fails: a commit that finds nothing to flush does not bump
  \<open>version\<close> and writes no superblock. Here the journal is empty and the state after
  the commit differs from the one before in \<open>last_commit\<close> only.
\<close>

theorem C8_commit_counterexample:
  "shall_write_data csum0 7 fi1 2 True = Some (0, fi1_committed)
   \<and> version (other fi1_committed) \<noteq> version (other fi1) + 1
   \<and> last_sb_written (other fi1_committed) = last_sb_written (other fi1)
   \<and> dev fi1_committed = dev fi1"
  by (simp add: shall_write_data_def write_data_loop.simps write_done_def fi1_def
      fi1_committed_def Let_def)

text \<open>
  Claim C8, amended. A commit (\<open>shall_write_data\<close>) that finds nothing to flush returns 0
  and changes nothing but \<open>last_commit\<close> and the two buffer counters, which it sets to
  0: \<open>version\<close>, \<open>last_sb_written\<close>, the device and the read-side cursors stay. After a
  commit that returned 0, a further commit with no append in between is of that kind,
  and changes \<open>last_commit\<close> only. A commit that has data to flush and returns 0 bumps
  \<open>version\<close> by 1 and writes a single superblock, at the rotated index, stamped with
  that index and the new version; the rotated index lies in \<open>[1, num_superblocks)\<close>
  whenever \<open>last_sb_written\<close> lies in \<open>[0, num_superblocks)\<close>.
\<close>

theorem C8_commit_rotation:
  "(committed (rd fa) \<ge> data_length (rd fa) \<and> 0 \<le> whya \<and> whya \<le> 2
      \<longrightarrow> shall_write_data csum nowa fa whya synca
            = Some (0, fa\<lparr>other := (other fa)\<lparr>last_commit := nowa\<rparr>,
                          rd := (rd fa)\<lparr>buffer_read := 0, buffer_written := 0\<rparr>\<rparr>))
   \<and> (shall_write_data csum now fi why sync = Some (0, fi') \<and> 0 \<le> why2 \<and> why2 \<le> 2
      \<longrightarrow> shall_write_data csum now2 fi' why2 sync2
            = Some (0, fi'\<lparr>other := (other fi')\<lparr>last_commit := now2\<rparr>\<rparr>))
   \<and> (shall_write_data csum now fi why sync = Some (0, fi')
        \<and> committed (rd fi) < data_length (rd fi)
      \<longrightarrow> version (other fi') = s64 (version (other fi) + 1)
        \<and> last_sb_written (other fi') = rotated_sb fi
        \<and> (\<forall>k. k \<noteq> nat (shall_superblock_location (rotated_sb fi))
               \<longrightarrow> supers (dev fi') k = supers (dev fi) k)
        \<and> ds_this_superblock (supers (dev fi') (nat (shall_superblock_location (rotated_sb fi))))
             = word_of_int (rotated_sb fi)
        \<and> ds_version (supers (dev fi') (nat (shall_superblock_location (rotated_sb fi))))
             = word_of_int (version (other fi')))
   \<and> (0 \<le> last_sb_written (other fi) \<and> last_sb_written (other fi) < num_superblocks (ro fi)
        \<and> 2 \<le> num_superblocks (ro fi) \<and> num_superblocks (ro fi) < 2 ^ 31
      \<longrightarrow> 1 \<le> rotated_sb fi \<and> rotated_sb fi < num_superblocks (ro fi))"
  using write_data_nothing[of fa whya csum nowa synca]
    write_data_repeat[of csum now fi why sync fi' why2 now2 sync2]
    write_data_bumps[of csum now fi why sync fi'] rotated_sb_range[of fi]
  by blast

theorem C8_commit_rotation_witness:
  "committed (rd fi1) \<ge> data_length (rd fi1)
   \<and> shall_write_data csum0 7 fi1 2 True = Some (0, fi1_committed)
   \<and> committed (rd fi_buf40) < data_length (rd fi_buf40)
   \<and> fst (the (shall_write_data csum0 7 fi_buf40 2 True)) = 0
   \<and> version (other (snd (the (shall_write_data csum0 7 fi_buf40 2 True)))) = 3
   \<and> last_sb_written (other (snd (the (shall_write_data csum0 7 fi_buf40 2 True)))) = 1
   \<and> shall_write_data csum0 8 (snd (the (shall_write_data csum0 7 fi_buf40 2 True))) 2 True
       = Some (0, (snd (the (shall_write_data csum0 7 fi_buf40 2 True)))
                    \<lparr>other := (other (snd (the (shall_write_data csum0 7 fi_buf40 2 True))))
                       \<lparr>last_commit := 8\<rparr>\<rparr>)"
proof -
  let ?r = "shall_write_data csum0 7 fi_buf40 2 True"
  have ev: "fst (the ?r) = 0 \<and> ?r \<noteq> None"
    by (simp add: shall_write_data_def write_data_loop.simps write_done_def write_intent_def
        write_todo_def write_block_def shall_write_superblock_def
        shall_superblock_location_def u64_def s32_def s64_def fi_buf40_def fi1_def dev0_def
        ptr1_def maxptr1_def Let_def offset_ok_def SHALL_DEV_BLOCK_def)
  then have r: "?r = Some (0, snd (the ?r))" by (cases ?r) auto
  have a: "committed (rd fi1) \<ge> data_length (rd fi1) \<and> (0::int) \<le> 2 \<and> (2::int) \<le> 2"
    by (simp add: fi1_def)
  have c: "committed (rd fi_buf40) < data_length (rd fi_buf40)"
    by (simp add: fi_buf40_def fi1_def)
  have d: "0 \<le> last_sb_written (other fi_buf40)
           \<and> last_sb_written (other fi_buf40) < num_superblocks (ro fi_buf40)
           \<and> 2 \<le> num_superblocks (ro fi_buf40) \<and> num_superblocks (ro fi_buf40) < 2 ^ 31"
    by (simp add: fi_buf40_def fi1_def)
  have rot: "rotated_sb fi_buf40 = 1"
    by (simp add: rotated_sb_def fi_buf40_def fi1_def s32_def)
  have v: "s64 (version (other fi_buf40) + 1) = 3"
    by (simp add: fi_buf40_def fi1_def s64_def)
  have n: "fi1\<lparr>other := (other fi1)\<lparr>last_commit := 7\<rparr>,
               rd := (rd fi1)\<lparr>buffer_read := 0, buffer_written := 0\<rparr>\<rparr> = fi1_committed"
    by (simp add: fi1_def fi1_committed_def)
  from C8_commit_rotation[of fi1 2 csum0 7 True 7 fi_buf40 2 True "snd (the ?r)" 2 8 True]
    a r c d rot v n ev
  show ?thesis by simp
qed

section \<open>Choice of the superblock on mount\<close>

lemma read_superblock_result:
  assumes "shall_read_superblock csum fi n = (err, reason, fi')"
  shows "dev fi' = dev fi"
    and "err \<ge> 0 \<Longrightarrow> sb_flags (ro fi') = ds_flags (supers (dev fi) (nat (shall_superblock_location n)))"
    and "err \<ge> 0 \<Longrightarrow> err = 0"
    and "dev fi2 = dev fi \<Longrightarrow> fst (shall_read_superblock csum fi2 n) = err"
    and "options fi' = options fi" and "lq fi' = lq fi"
  using assms
  by (auto simp: shall_read_superblock_def sb_assign_def Let_def EIO_def EINVAL_def
      split: if_split_asm option.splits)

lemma read_superblock_dev [simp]:
  "dev (snd (snd (shall_read_superblock csum fi n))) = dev fi"
  using read_superblock_result(1)[of csum fi n] by (metis prod.collapse)

lemma read_superblock_verdict:
  "dev fi2 = dev fi \<Longrightarrow>
     fst (shall_read_superblock csum fi2 n) = fst (shall_read_superblock csum fi n)"
  using read_superblock_result(4)[of csum fi n] by (metis prod.collapse)

lemma read_superblock_flags:
  "fst (shall_read_superblock csum fi n) \<ge> 0 \<Longrightarrow>
     sb_flags (ro (snd (snd (shall_read_superblock csum fi n))))
       = ds_flags (supers (dev fi) (nat (shall_superblock_location n)))"
  using read_superblock_result(2)[of csum fi n] by (metis prod.collapse)

lemma read_superblock_zero:
  "fst (shall_read_superblock csum fi n) \<ge> 0 \<Longrightarrow> fst (shall_read_superblock csum fi n) = 0"
  using read_superblock_result(3)[of csum fi n] by (metis prod.collapse)

lemma search_finds:
  assumes "n < k" "k < 2 ^ 31"
    "\<forall>j. n < j \<and> j < k \<longrightarrow> fst (shall_read_superblock csum fi j) < 0"
    "\<forall>j. n < j \<and> j \<le> k
        \<longrightarrow> shall_superblock_location j < u64 (cdiv (i_size (dev fi)) SHALL_DEV_BLOCK)"
    "fst (shall_read_superblock csum fi k) \<ge> 0"
  shows "\<exists>fi'. search_superblock_from csum fi n = Some (0, fi')
            \<and> sb_flags (ro fi') = ds_flags (supers (dev fi) (nat (shall_superblock_location k)))"
  using assms
proof (induction "nat (k - n)" arbitrary: n fi)
  case 0
  then show ?case by simp
next
  case (Suc m)
  let ?r = "shall_read_superblock csum fi (n + 1)"
  have loc: "\<not> shall_superblock_location (n + 1) \<ge> u64 (cdiv (i_size (dev fi)) SHALL_DEV_BLOCK)"
    using Suc.prems(1,4) by (simp add: not_le)
  have n31: "\<not> n + 1 \<ge> 2 ^ 31" using Suc.prems(1,2) by simp
  show ?case
  proof (cases "n + 1 = k")
    case True
    have ok: "fst ?r \<ge> 0" using Suc.prems(5) True by simp
    have "search_superblock_from csum fi n = Some (0, snd (snd ?r))"
      using loc n31 ok
      by (subst search_superblock_from.simps) (simp add: Let_def case_prod_unfold)
    moreover have "sb_flags (ro (snd (snd ?r)))
        = ds_flags (supers (dev fi) (nat (shall_superblock_location k)))"
      using read_superblock_flags[OF ok] True by simp
    ultimately show ?thesis by blast
  next
    case False
    then have lt: "n + 1 < k" using Suc.prems(1) by simp
    have bad: "fst ?r < 0" using Suc.prems(3) lt by simp
    let ?fi = "snd (snd ?r)"
    have d: "dev ?fi = dev fi" by simp
    have step: "search_superblock_from csum fi n = search_superblock_from csum ?fi (n + 1)"
      using loc n31 bad
      by (subst search_superblock_from.simps) (simp add: Let_def case_prod_unfold)
    have m: "m = nat (k - (n + 1))" using Suc.hyps(2) by simp
    have "\<exists>fi'. search_superblock_from csum ?fi (n + 1) = Some (0, fi')
            \<and> sb_flags (ro fi') = ds_flags (supers (dev ?fi) (nat (shall_superblock_location k)))"
    proof (rule Suc.hyps(1)[OF m lt Suc.prems(2)])
      show "\<forall>j. n + 1 < j \<and> j < k \<longrightarrow> fst (shall_read_superblock csum ?fi j) < 0"
        using Suc.prems(3) read_superblock_verdict[OF d] by simp
      show "\<forall>j. n + 1 < j \<and> j \<le> k
          \<longrightarrow> shall_superblock_location j < u64 (cdiv (i_size (dev ?fi)) SHALL_DEV_BLOCK)"
        using Suc.prems(4) by simp
      show "fst (shall_read_superblock csum ?fi k) \<ge> 0"
        using Suc.prems(5) read_superblock_verdict[OF d] by simp
    qed
    then show ?thesis using step by simp
  qed
qed

lemma mount_update_refused:
  assumes env: "\<not> ms_rdonly env" "blocksize_ok env" "kmalloc_ok env"
    and k: "0 \<le> k" "k < 2 ^ 31"
    and before: "\<forall>j. 0 \<le> j \<and> j < k \<longrightarrow> fst (shall_read_superblock csum fi j) < 0"
    and reach: "\<forall>j. 0 < j \<and> j \<le> k
        \<longrightarrow> shall_superblock_location j < u64 (cdiv (i_size (dev fi)) SHALL_DEV_BLOCK)"
    and valid: "fst (shall_read_superblock csum fi k) \<ge> 0"
    and upd: "ds_flags (supers (dev fi) (nat (shall_superblock_location k))) AND SHALL_SB_UPDATE \<noteq> 0"
  shows "map_option fst (shall_fill_super csum crc env fi) = Some (Returns (- EAGAIN))"
proof (cases "k = 0")
  case True
  let ?r = "shall_read_superblock csum fi 0"
  have z: "fst ?r = 0" using valid True read_superblock_zero by simp
  have f: "sb_flags (ro (snd (snd ?r))) AND SHALL_SB_UPDATE \<noteq> 0"
    using read_superblock_flags[of csum fi 0] valid upd True by simp
  show ?thesis using env z f
    by (simp add: shall_fill_super_def case_prod_unfold mount_fail_def EAGAIN_def)
next
  case False
  let ?r = "shall_read_superblock csum fi 0"
  let ?fi = "snd (snd ?r)"
  have bad: "fst ?r < 0" using before False k by simp
  have d: "dev ?fi = dev fi" by simp
  have "\<exists>fi'. search_superblock_from csum ?fi 0 = Some (0, fi')
          \<and> sb_flags (ro fi') = ds_flags (supers (dev ?fi) (nat (shall_superblock_location k)))"
  proof (rule search_finds)
    show "0 < k" using False k by simp
    show "k < 2 ^ 31" by fact
    show "\<forall>j. 0 < j \<and> j < k \<longrightarrow> fst (shall_read_superblock csum ?fi j) < 0"
      using before read_superblock_verdict[OF d] by simp
    show "\<forall>j. 0 < j \<and> j \<le> k
        \<longrightarrow> shall_superblock_location j < u64 (cdiv (i_size (dev ?fi)) SHALL_DEV_BLOCK)"
      using reach by simp
    show "fst (shall_read_superblock csum ?fi k) \<ge> 0"
      using valid read_superblock_verdict[OF d] by simp
  qed
  then obtain fi' where s: "search_superblock csum ?fi = Some (0, fi')"
    and f: "sb_flags (ro fi') AND SHALL_SB_UPDATE \<noteq> 0"
    using upd by (auto simp: search_superblock_def)
  show ?thesis using env bad s f
    by (simp add: shall_fill_super_def case_prod_unfold mount_fail_def EAGAIN_def)
qed

text \<open>
  Claim C2, as stated, fails on the error code: with \<open>UPDATE\<close> set in superblock 0 the
  mount is refused, and the error is \<open>EAGAIN\<close>.
\<close>

theorem C2_mount_update_counterexample:
  "ds_flags (supers (dev fi_upd) (nat (shall_superblock_location 0))) AND SHALL_SB_UPDATE \<noteq> 0
   \<and> map_option fst (shall_fill_super csum0 crc0 env0 fi_upd) = Some (Returns (- EAGAIN))
   \<and> - EAGAIN \<noteq> - EBUSY"
  by (simp add: shall_fill_super_def shall_read_superblock_def sb_check_def sb_assign_def
      checksum_super_def csum0_def fi_upd_def fi0_def dev0_def ds0_def env0_def
      shall_superblock_location_def u64_def u32_def s32_def s64_def crem_def
      SHALL_SB_MAGIC_def SHALL_SB_VALID_def SHALL_SB_UPDATE_def SHALL_DEV_BLOCK_def
      sizeof_devsuper_def mount_fail_def EAGAIN_def EBUSY_def EIO_def EINVAL_def Let_def)

text \<open>
  Claim C2, amended. For every mount attempt that gets as far as reading the device
  (not read-only, block size set, state allocated): if superblock \<open>k\<close> is the one
  selected, that is, \<open>k\<close> is 0 or the first alternate that \<open>shall_read_superblock\<close>
  accepts, every superblock before it being rejected and the scan reaching it before
  the end of the device, and its \<open>UPDATE\<close> flag is set on disk, then the mount is
  refused with error \<open>EAGAIN\<close>.
\<close>

theorem C2_mount_update_refused:
  "\<not> ms_rdonly env \<and> blocksize_ok env \<and> kmalloc_ok env
   \<and> 0 \<le> k \<and> k < 2 ^ 31
   \<and> (\<forall>j. 0 \<le> j \<and> j < k \<longrightarrow> fst (shall_read_superblock csum fi j) < 0)
   \<and> (\<forall>j. 0 < j \<and> j \<le> k
         \<longrightarrow> shall_superblock_location j < u64 (cdiv (i_size (dev fi)) SHALL_DEV_BLOCK))
   \<and> fst (shall_read_superblock csum fi k) \<ge> 0
   \<and> ds_flags (supers (dev fi) (nat (shall_superblock_location k))) AND SHALL_SB_UPDATE \<noteq> 0
   \<longrightarrow> map_option fst (shall_fill_super csum crc env fi) = Some (Returns (- EAGAIN))"
  using mount_update_refused[of env k csum fi crc] by blast

theorem C2_mount_update_refused_witness:
  "fst (shall_read_superblock csum0 fi_upd1 0) < 0
   \<and> shall_superblock_location 1 < u64 (cdiv (i_size (dev fi_upd1)) SHALL_DEV_BLOCK)
   \<and> fst (shall_read_superblock csum0 fi_upd1 1) \<ge> 0
   \<and> ds_flags (supers (dev fi_upd1) (nat (shall_superblock_location 1))) AND SHALL_SB_UPDATE \<noteq> 0
   \<and> map_option fst (shall_fill_super csum0 crc0 env0 fi_upd1) = Some (Returns (- EAGAIN))"
proof -
  have w1: "fst (shall_read_superblock csum0 fi_upd1 0) < 0"
    by (simp add: shall_read_superblock_def sb_check_def sb_assign_def
        checksum_super_def csum0_def fi_upd1_def fi0_def dev0_def ds0_def
        shall_superblock_location_def u64_def u32_def EINVAL_def EIO_def SHALL_SB_MAGIC_def
        Let_def)
  have w2: "fst (shall_read_superblock csum0 fi_upd1 1) \<ge> 0"
    by (simp add: shall_read_superblock_def sb_check_def sb_assign_def
        checksum_super_def csum0_def fi_upd1_def fi0_def dev0_def ds0_def
        shall_superblock_location_def u64_def u32_def s32_def s64_def crem_def
        SHALL_SB_MAGIC_def SHALL_SB_VALID_def SHALL_DEV_BLOCK_def
        sizeof_devsuper_def EIO_def EINVAL_def Let_def)
  have w3: "shall_superblock_location 1 < u64 (cdiv (i_size (dev fi_upd1)) SHALL_DEV_BLOCK)"
    by (simp add: fi_upd1_def fi0_def dev0_def shall_superblock_location_def u64_def cdiv_def
        SHALL_DEV_BLOCK_def)
  have w4: "ds_flags (supers (dev fi_upd1) (nat (shall_superblock_location 1)))
              AND SHALL_SB_UPDATE \<noteq> 0"
    by (simp add: fi_upd1_def fi0_def dev0_def ds0_def shall_superblock_location_def u64_def
        SHALL_SB_UPDATE_def)
  have e: "\<not> ms_rdonly env0 \<and> blocksize_ok env0 \<and> kmalloc_ok env0 \<and> (0::int) \<le> 1 \<and> (1::int) < 2 ^ 31"
    by (simp add: env0_def)
  have b: "\<forall>j. 0 \<le> j \<and> j < 1 \<longrightarrow> fst (shall_read_superblock csum0 fi_upd1 j) < 0"
  proof (intro allI impI)
    fix j :: int assume "0 \<le> j \<and> j < 1"
    then have "j = 0" by simp
    then show "fst (shall_read_superblock csum0 fi_upd1 j) < 0" using w1 by simp
  qed
  have r: "\<forall>j. 0 < j \<and> j \<le> 1
      \<longrightarrow> shall_superblock_location j < u64 (cdiv (i_size (dev fi_upd1)) SHALL_DEV_BLOCK)"
  proof (intro allI impI)
    fix j :: int assume "0 < j \<and> j \<le> 1"
    then have "j = 1" by simp
    then show "shall_superblock_location j < u64 (cdiv (i_size (dev fi_upd1)) SHALL_DEV_BLOCK)"
      using w3 by simp
  qed
  from C2_mount_update_refused[of env0 1 csum0 fi_upd1 crc0] e b r w2 w4
  have "map_option fst (shall_fill_super csum0 crc0 env0 fi_upd1) = Some (Returns (- EAGAIN))"
    by blast
  with w1 w2 w3 w4 show ?thesis by simp
qed

end
